theory Spec2Isabelle
  imports Main "HOL-Library.List_Lexorder" "HOL-Library.Char_ord"
begin

section \<open>JavaScript values and JSON serialisation\<close>

text \<open>
  The certificate engine of WipeOut (\<^verbatim>\<open>backend/src/services/certificateService.js\<close> and
  \<^verbatim>\<open>kmsService.js\<close>) works on plain JavaScript objects that come from a JSON request body.
  A value is modelled by \<open>jsval\<close>; an object is the list of its own properties in
  enumeration order (\<^verbatim>\<open>Object.keys\<close> order), so that insertion order is visible.
  Numbers are the integers (the attested fields are strings and integers), strings are
  \<open>char list\<close>s holding the text's bytes.
\<close>

datatype jsval =
    JUndefined
  | JNull
  | JBool bool
  | JNum int
  | JStr string
  | JArr "jsval list"
  | JObj "(string \<times> jsval) list"

type_synonym jsobject = "(string \<times> jsval) list"

text \<open>Property read \<^verbatim>\<open>obj.k\<close> on an object: a missing property reads as \<^verbatim>\<open>undefined\<close>.\<close>

definition get_prop :: "jsobject \<Rightarrow> string \<Rightarrow> jsval" where
  "get_prop ps k = (case map_of ps k of Some v \<Rightarrow> v | None \<Rightarrow> JUndefined)"

text \<open>\<^verbatim>\<open>obj.k = v\<close>: an existing property keeps its place, a new one is appended.\<close>

definition set_prop :: "jsobject \<Rightarrow> string \<Rightarrow> jsval \<Rightarrow> jsobject" where
  "set_prop ps k v =
     (if k \<in> set (map fst ps) then map (\<lambda>(k', v'). if k' = k then (k', v) else (k', v')) ps
      else ps @ [(k, v)])"

text \<open>\<^verbatim>\<open>delete obj.k\<close>.\<close>

definition delete_prop :: "jsobject \<Rightarrow> string \<Rightarrow> jsobject" where
  "delete_prop ps k = filter (\<lambda>(k', v'). k' \<noteq> k) ps"

text \<open>JavaScript truthiness and the \<^verbatim>\<open>a || b\<close> operator.\<close>

fun truthy :: "jsval \<Rightarrow> bool" where
  "truthy JUndefined = False"
| "truthy JNull = False"
| "truthy (JBool b) = b"
| "truthy (JNum n) = (n \<noteq> 0)"
| "truthy (JStr s) = (s \<noteq> [])"
| "truthy (JArr vs) = True"
| "truthy (JObj ps) = True"

definition js_or :: "jsval \<Rightarrow> jsval \<Rightarrow> jsval" where
  "js_or a b = (if truthy a then a else b)"

subsection \<open>Numbers and strings as text\<close>

function show_digits :: "int \<Rightarrow> string" where
  "show_digits n =
     (if n < 10 then [''0123456789'' ! nat n]
      else show_digits (n div 10) @ [''0123456789'' ! nat (n mod 10)])"
  by pat_completeness auto
termination
  by (relation "measure nat") auto

declare show_digits.simps [simp del]

definition show_int :: "int \<Rightarrow> string" where
  "show_int i = (if i < 0 then CHR ''-'' # show_digits (- i) else show_digits i)"

text \<open>
  \<^verbatim>\<open>QuoteJSONString\<close>: the double quote and the backslash are escaped, control characters
  get their short escape or \<^verbatim>\<open>\u00XX\<close>, every other character is copied.
\<close>

definition quote_char :: "char \<Rightarrow> string" where
  "quote_char c =
     (let n = (of_char c :: nat) in
      if n = 0x22 then [CHR 0x5C, CHR 0x22]
      else if n = 0x5C then [CHR 0x5C, CHR 0x5C]
      else if n = 0x08 then [CHR 0x5C, CHR ''b'']
      else if n = 0x0C then [CHR 0x5C, CHR ''f'']
      else if n = 0x0A then [CHR 0x5C, CHR ''n'']
      else if n = 0x0D then [CHR 0x5C, CHR ''r'']
      else if n = 0x09 then [CHR 0x5C, CHR ''t'']
      else if n < 0x20 then
        [CHR 0x5C, CHR ''u'', CHR ''0'', CHR ''0'',
         ''0123456789abcdef'' ! (n div 16), ''0123456789abcdef'' ! (n mod 16)]
      else [c])"

definition quote :: "string \<Rightarrow> string" where
  "quote s = CHR 0x22 # concat (map quote_char s) @ [CHR 0x22]"

fun join_comma :: "string list \<Rightarrow> string" where
  "join_comma [] = []"
| "join_comma [x] = x"
| "join_comma (x # y # ys) = x @ '','' @ join_comma (y # ys)"

subsection \<open>\<^verbatim>\<open>JSON.stringify\<close>\<close>

text \<open>
  The replacer of \<^verbatim>\<open>JSON.stringify(value, replacer)\<close>, when it is an array, becomes the
  \<^emph>\<open>property list\<close>: its items without repetitions, first occurrence kept. The property
  list then selects and orders the properties of \<^emph>\<open>every\<close> object that is serialised, the
  nested ones too. Without a replacer an object is serialised with its own properties in
  enumeration order. A property whose value is \<^verbatim>\<open>undefined\<close> is left out; an
  \<^verbatim>\<open>undefined\<close> array element is written \<^verbatim>\<open>null\<close>.
\<close>

definition property_list :: "string list \<Rightarrow> string list" where
  "property_list ks = fold (\<lambda>k acc. if k \<in> set acc then acc else acc @ [k]) ks []"

definition SerializeJSONObject ::
  "string list option \<Rightarrow> (string \<times> string option) list \<Rightarrow> string" where
  "SerializeJSONObject K sps =
     (let keys = (case K of Some ks \<Rightarrow> ks | None \<Rightarrow> map fst sps);
          partial = concat (map (\<lambda>k. case map_of sps k of
                                        Some (Some s) \<Rightarrow> [quote k @ '':'' @ s]
                                      | _ \<Rightarrow> []) keys)
      in ''{'' @ join_comma partial @ ''}'')"

definition SerializeJSONArray :: "string option list \<Rightarrow> string" where
  "SerializeJSONArray ss =
     ''['' @ join_comma (map (\<lambda>r. case r of None \<Rightarrow> ''null'' | Some s \<Rightarrow> s) ss) @ '']''"

primrec SerializeJSONProperty :: "string list option \<Rightarrow> jsval \<Rightarrow> string option" where
  "SerializeJSONProperty K JUndefined = None"
| "SerializeJSONProperty K JNull = Some ''null''"
| "SerializeJSONProperty K (JBool b) = Some (if b then ''true'' else ''false'')"
| "SerializeJSONProperty K (JNum n) = Some (show_int n)"
| "SerializeJSONProperty K (JStr s) = Some (quote s)"
| "SerializeJSONProperty K (JArr vs) =
     Some (SerializeJSONArray (map (SerializeJSONProperty K) vs))"
| "SerializeJSONProperty K (JObj ps) =
     Some (SerializeJSONObject K (map (map_prod id (SerializeJSONProperty K)) ps))"

text \<open>\<^verbatim>\<open>JSON.stringify(obj)\<close> and \<^verbatim>\<open>JSON.stringify(obj, keys)\<close> on an object.\<close>

definition JSON_stringify :: "jsobject \<Rightarrow> string" where
  "JSON_stringify ps =
     SerializeJSONObject None (map (map_prod id (SerializeJSONProperty None)) ps)"

definition JSON_stringify_replacer :: "jsobject \<Rightarrow> string list \<Rightarrow> string" where
  "JSON_stringify_replacer ps ks =
     (let K = Some (property_list ks)
      in SerializeJSONObject K (map (map_prod id (SerializeJSONProperty K)) ps))"

text \<open>
  What \<^verbatim>\<open>JSON.parse(JSON.stringify(v))\<close> gives back: the value without its
  \<^verbatim>\<open>undefined\<close> properties, and with \<^verbatim>\<open>null\<close> for an \<^verbatim>\<open>undefined\<close> array element.
\<close>

primrec json_roundtrip :: "jsval \<Rightarrow> jsval" where
  "json_roundtrip JUndefined = JUndefined"
| "json_roundtrip JNull = JNull"
| "json_roundtrip (JBool b) = JBool b"
| "json_roundtrip (JNum n) = JNum n"
| "json_roundtrip (JStr s) = JStr s"
| "json_roundtrip (JArr vs) =
     JArr (map (\<lambda>v. if v = JUndefined then JNull else v) (map json_roundtrip vs))"
| "json_roundtrip (JObj ps) =
     JObj (filter (\<lambda>(k, v). v \<noteq> JUndefined) (map (map_prod id json_roundtrip) ps))"

definition json_roundtrip_object :: "jsobject \<Rightarrow> jsobject" where
  "json_roundtrip_object ps =
     filter (\<lambda>(k, v). v \<noteq> JUndefined) (map (map_prod id json_roundtrip) ps)"

section \<open>Duration of a wipe\<close>

text \<open>
  \<^verbatim>\<open>calculateDuration(startTime, endTime)\<close> parses both times with moment.js, takes
  \<^verbatim>\<open>end.diff(start)\<close> and reads the duration's hours (the floor of \<^verbatim>\<open>asHours()\<close>), its
  minutes component and its seconds component. moment.js computes the components with
  division rounded towards zero and the sign-keeping remainder of JavaScript. The parsed
  instants are the arguments here, in milliseconds since the epoch; \<open>None\<close> is a time that
  moment.js cannot parse, for which every reading is \<^verbatim>\<open>NaN\<close>.

  JavaScript numbers are IEEE doubles. A time value is an integer of at most
  \<open>8640000000000000\<close> in absolute value (beyond it the date is invalid), so both instants
  are exact and their difference lies below \<open>2^54\<close> in absolute value: the subtraction
  gives the difference itself up to \<open>2^53\<close> (\<open>max_safe_integer\<close>), and beyond that the
  nearest even integer,
  the multiple of four when the difference is odd (round to nearest, ties to even). In
  this range the rounded quotients by 1000, 60 and 3600000 have the same floor (and the
  same truncation) as the exact quotients, so the divisions are those of the integers.
\<close>

definition max_time_value :: int where
  "max_time_value = 8640000000000000"

definition valid_time :: "int option \<Rightarrow> int option" where
  "valid_time t =
     (case t of
        Some ms \<Rightarrow> if - max_time_value \<le> ms \<and> ms \<le> max_time_value then Some ms else None
      | None \<Rightarrow> None)"

definition max_safe_integer :: int where
  "max_safe_integer = 9007199254740992"

definition to_double :: "int \<Rightarrow> int" where
  "to_double x =
     (if (- max_safe_integer \<le> x \<and> x \<le> max_safe_integer) \<or> x mod 2 = 0 then x
      else if (x + 1) mod 4 = 0 then x + 1
      else x - 1)"

definition absFloor_div :: "int \<Rightarrow> int \<Rightarrow> int" where
  "absFloor_div a b = (if a < 0 then - ((- a) div b) else a div b)"

definition js_rem :: "int \<Rightarrow> int \<Rightarrow> int" where
  "js_rem a b = a - b * absFloor_div a b"

definition calculateDuration :: "int option \<Rightarrow> int option \<Rightarrow> string" where
  "calculateDuration startTime endTime =
     (case (valid_time startTime, valid_time endTime) of
        (Some start, Some end) \<Rightarrow>
          (let duration = to_double (end - start);
               hours = duration div 3600000;
               minutes = js_rem (absFloor_div (absFloor_div duration 1000) 60) 60;
               seconds = js_rem (absFloor_div duration 1000) 60
           in if hours > 0 then
                show_int hours @ ''h '' @ show_int minutes @ ''m '' @ show_int seconds @ ''s''
              else if minutes > 0 then
                show_int minutes @ ''m '' @ show_int seconds @ ''s''
              else show_int seconds @ ''s'')
      | _ \<Rightarrow> ''NaNs'')"

section \<open>The world outside the engine\<close>

text \<open>
  Everything the two services take from outside is a field of \<open>world\<close>: the process
  environment, the identifier and the clock reading drawn by a call, moment.js's parser,
  SHA-256, the clients of the key management services with the answer (or the rejection)
  of each remote call, the QR encoder, and the outcome of the two file writes of an
  issuance. A thrown JavaScript error is \<open>Inl\<close> of its message.
\<close>

datatype js_error = Error string

datatype log_level = LogInfo | LogWarn | LogError

type_synonym log_entry = "log_level \<times> string"

text \<open>
  A file of the certificate directory: the JSON text of an object, a rendered PDF (of a
  certificate object and a QR code), or bytes that \<^verbatim>\<open>JSON.parse\<close> rejects (a truncated
  write, for one). The engine writes an object \<open>x\<close> as \<^verbatim>\<open>JSON.stringify(x, null, 2)\<close>;
  the file then parses to \<open>json_roundtrip_object x\<close>. A file holding a JSON text that is
  not an object is not written by the engine and is outside the model.
\<close>

datatype stored_file = JsonObject jsobject | PdfDocument jsobject string | Unparsable

type_synonym filesystem = "string \<Rightarrow> stored_file option"

text \<open>
  A write ends, or fails with an error; a failed write has created nothing or has left
  a partial file behind (\<open>True\<close>).
\<close>

datatype io_outcome = Completed | Failed js_error bool

record world =
  process_env :: "string \<Rightarrow> string option"
  uuidv4 :: string
  now_ISOString :: string
  moment_valueOf :: "jsval \<Rightarrow> int option"
  sha256_hex :: "string \<Rightarrow> string"
  sha256_digest :: "string \<Rightarrow> string"
  Buffer_from_base64 :: "jsval \<Rightarrow> js_error + string"
  awsKms_sign :: "string \<Rightarrow> js_error + string"
  awsKms_verify :: "string \<Rightarrow> string \<Rightarrow> js_error + bool"
  gcpKms_asymmetricSign :: "string \<Rightarrow> js_error + string"
  gcpKms_asymmetricVerify :: "string \<Rightarrow> string \<Rightarrow> js_error + bool"
  crypto_sign :: "string \<Rightarrow> js_error + string"
  crypto_verify :: "string \<Rightarrow> string \<Rightarrow> js_error + bool"
  QRCode_toDataURL :: "string \<Rightarrow> js_error + string"
  pdf_stream :: "jsobject \<Rightarrow> string \<Rightarrow> io_outcome"
  writeFileSync :: "string \<Rightarrow> jsobject \<Rightarrow> io_outcome"

text \<open>A value of \<^verbatim>\<open>process.env\<close> is a string or \<^verbatim>\<open>undefined\<close>; the empty string is falsy.\<close>

definition env_value :: "string option \<Rightarrow> jsval" where
  "env_value v = (case v of Some s \<Rightarrow> JStr s | None \<Rightarrow> JUndefined)"

definition env_set :: "world \<Rightarrow> string \<Rightarrow> bool" where
  "env_set w name = truthy (env_value (process_env w name))"

section \<open>The signing service (\<^verbatim>\<open>kmsService.js\<close>)\<close>

datatype provider = Aws | Gcp | Azure | Local

text \<open>\<^verbatim>\<open>detectProvider()\<close>, with the warning it logs.\<close>

definition detectProvider :: "world \<Rightarrow> provider \<times> log_entry list" where
  "detectProvider w =
     (if env_set w ''AWS_REGION'' \<and> env_set w ''KMS_KEY_ID'' then (Aws, [])
      else if env_set w ''GOOGLE_CLOUD_PROJECT'' \<and> env_set w ''GCP_KMS_KEY'' then (Gcp, [])
      else if env_set w ''AZURE_KEY_VAULT_URL'' then (Azure, [])
      else (Local, [(LogWarn,
        ''No KMS provider configured, using local signing (NOT RECOMMENDED FOR PRODUCTION)'')]))"

text \<open>
  The service object: the constructor stores the detected provider in \<^verbatim>\<open>this.provider\<close>,
  and no other statement of the class assigns it. \<^verbatim>\<open>initializeProvider()\<close> builds the
  client of that provider (for \<open>Local\<close>, loads or creates the key pair); the clients'
  calls are the fields of \<open>world\<close>.
\<close>

record KMSService =
  provider :: provider

definition KMSService_constructor :: "world \<Rightarrow> KMSService \<times> log_entry list" where
  "KMSService_constructor w =
     (let (p, logs) = detectProvider w in (\<lparr>provider = p\<rparr>, logs))"

definition signWithAWS :: "world \<Rightarrow> string \<Rightarrow> js_error + string" where
  "signWithAWS w dataBuffer = awsKms_sign w dataBuffer"

definition signWithGCP :: "world \<Rightarrow> string \<Rightarrow> js_error + string" where
  "signWithGCP w dataBuffer = gcpKms_asymmetricSign w (sha256_digest w dataBuffer)"

definition signWithAzure :: "world \<Rightarrow> string \<Rightarrow> js_error + string" where
  "signWithAzure w dataBuffer =
     Inl (Error ''Azure KMS signing not fully implemented in this demo'')"

definition signWithLocal :: "world \<Rightarrow> string \<Rightarrow> js_error + string" where
  "signWithLocal w dataBuffer = crypto_sign w dataBuffer"

text \<open>\<^verbatim>\<open>signData(data)\<close>: an error of the provider is logged and thrown again.\<close>

definition signData ::
  "world \<Rightarrow> KMSService \<Rightarrow> string \<Rightarrow> (js_error + string) \<times> log_entry list" where
  "signData w kms data =
     (case (case provider kms of
              Aws \<Rightarrow> signWithAWS w data
            | Gcp \<Rightarrow> signWithGCP w data
            | Azure \<Rightarrow> signWithAzure w data
            | Local \<Rightarrow> signWithLocal w data) of
        Inl e \<Rightarrow> (Inl e, [(LogError, ''Data signing failed'')])
      | Inr signature \<Rightarrow> (Inr signature, []))"

text \<open>
  The cloud verifications catch every error of the remote call and answer \<^verbatim>\<open>false\<close>.
\<close>

definition verifyWithAWS :: "world \<Rightarrow> string \<Rightarrow> string \<Rightarrow> js_error + bool" where
  "verifyWithAWS w dataBuffer signatureBuffer =
     (case awsKms_verify w dataBuffer signatureBuffer of
        Inr SignatureValid \<Rightarrow> Inr SignatureValid
      | Inl e \<Rightarrow> Inr False)"

definition verifyWithGCP :: "world \<Rightarrow> string \<Rightarrow> string \<Rightarrow> js_error + bool" where
  "verifyWithGCP w dataBuffer signatureBuffer =
     (case gcpKms_asymmetricVerify w (sha256_digest w dataBuffer) signatureBuffer of
        Inr verified \<Rightarrow> Inr verified
      | Inl e \<Rightarrow> Inr False)"

definition verifyWithAzure :: "world \<Rightarrow> string \<Rightarrow> string \<Rightarrow> js_error + bool" where
  "verifyWithAzure w dataBuffer signatureBuffer =
     Inl (Error ''Azure KMS verification not fully implemented in this demo'')"

definition verifyWithLocal :: "world \<Rightarrow> string \<Rightarrow> string \<Rightarrow> js_error + bool" where
  "verifyWithLocal w dataBuffer signatureBuffer = crypto_verify w dataBuffer signatureBuffer"

text \<open>
  \<^verbatim>\<open>verifySignature(data, signature)\<close>: whatever is thrown inside (by the base64 decoding
  of the signature or by the provider) is logged, and the answer is \<^verbatim>\<open>false\<close>.
\<close>

definition verifySignature ::
  "world \<Rightarrow> KMSService \<Rightarrow> string \<Rightarrow> jsval \<Rightarrow> bool \<times> log_entry list" where
  "verifySignature w kms data signature =
     (case (case Buffer_from_base64 w signature of
              Inl e \<Rightarrow> Inl e
            | Inr signatureBuffer \<Rightarrow>
                (case provider kms of
                   Aws \<Rightarrow> verifyWithAWS w data signatureBuffer
                 | Gcp \<Rightarrow> verifyWithGCP w data signatureBuffer
                 | Azure \<Rightarrow> verifyWithAzure w data signatureBuffer
                 | Local \<Rightarrow> verifyWithLocal w data signatureBuffer)) of
        Inl e \<Rightarrow> (False, [(LogError, ''Signature verification failed'')])
      | Inr b \<Rightarrow> (b, []))"

section \<open>The certificate service (\<^verbatim>\<open>certificateService.js\<close>)\<close>

text \<open>Text of a value inside a template literal \<^verbatim>\<open>`${v}`\<close>.\<close>

primrec template_text :: "jsval \<Rightarrow> string" where
  "template_text JUndefined = ''undefined''"
| "template_text JNull = ''null''"
| "template_text (JBool b) = (if b then ''true'' else ''false'')"
| "template_text (JNum n) = show_int n"
| "template_text (JStr s) = s"
| "template_text (JArr vs) =
     join_comma (map2 (\<lambda>v t. if v = JUndefined \<or> v = JNull then [] else t)
                      vs (map template_text vs))"
| "template_text (JObj ps) = ''[object Object]''"

text \<open>
  \<^verbatim>\<open>generateDataHash(data)\<close>: the object is serialised with its own sorted key list as
  the replacer array, and the text is hashed.
\<close>

definition generateDataHash :: "world \<Rightarrow> jsobject \<Rightarrow> string" where
  "generateDataHash w data =
     (let dataString = JSON_stringify_replacer data (sort (map fst data))
      in sha256_hex w dataString)"

text \<open>The object literal that \<^verbatim>\<open>generateCertificate\<close> builds from the wipe record.\<close>

definition certificateData_literal :: "world \<Rightarrow> jsobject \<Rightarrow> jsobject" where
  "certificateData_literal w wipeData =
     [(''certificateId'', JStr (uuidv4 w)),
      (''timestamp'', JStr (now_ISOString w)),
      (''version'', JStr ''1.0''),
      (''issuer'', js_or (env_value (process_env w ''CERT_ISSUER_NAME''))
                         (JStr ''Secure Data Solutions'')),
      (''wipeDetails'', JObj
        [(''deviceId'', get_prop wipeData ''deviceId''),
         (''serialNumber'', get_prop wipeData ''serialNumber''),
         (''algorithm'', get_prop wipeData ''algorithm''),
         (''passes'', get_prop wipeData ''passes''),
         (''startTime'', get_prop wipeData ''startTime''),
         (''endTime'', get_prop wipeData ''endTime''),
         (''duration'', JStr (calculateDuration
                                (moment_valueOf w (get_prop wipeData ''startTime''))
                                (moment_valueOf w (get_prop wipeData ''endTime'')))),
         (''status'', get_prop wipeData ''status''),
         (''verification'', js_or (get_prop wipeData ''verification'') (JBool False)),
         (''submissionId'', get_prop wipeData ''submissionId'')]),
      (''metadata'', JObj
        [(''serverVersion'', get_prop wipeData ''serverVersion''),
         (''coreEngineVersion'', js_or (get_prop wipeData ''coreEngineVersion'')
                                       (JStr ''Unknown'')),
         (''submissionTime'', get_prop wipeData ''submissionTime''),
         (''ipAddress'', get_prop wipeData ''ipAddress'')])]"

text \<open>
  \<^verbatim>\<open>generatePDF\<close> streams the rendered document to \<^verbatim>\<open><certificateId>.pdf\<close> in the
  certificate directory (file names stand for the paths in that directory). The promise
  resolves with the path when the stream has finished, and is rejected when rendering
  throws or the stream fails.
\<close>

definition generatePDF ::
  "world \<Rightarrow> filesystem \<Rightarrow> jsobject \<Rightarrow> string \<Rightarrow> (js_error + string) \<times> filesystem" where
  "generatePDF w fs certificateData qrCodeDataUrl =
     (let pdfPath = template_text (get_prop certificateData ''certificateId'') @ ''.pdf''
      in case pdf_stream w certificateData qrCodeDataUrl of
           Completed \<Rightarrow>
             (Inr pdfPath, fs(pdfPath \<mapsto> PdfDocument certificateData qrCodeDataUrl))
         | Failed e partial \<Rightarrow>
             (Inl e, if partial then fs(pdfPath \<mapsto> Unparsable) else fs))"

text \<open>The object that \<^verbatim>\<open>generateCertificate\<close> returns.\<close>

record issued =
  certificateId :: string
  pdfPath :: string
  downloadUrl :: string
  verificationUrl :: string
  signature :: string
  dataHash :: string

text \<open>The \<^verbatim>\<open>catch\<close> block of \<^verbatim>\<open>generateCertificate\<close>: log, and throw a new error.\<close>

definition generation_failed ::
  "js_error \<Rightarrow> filesystem \<Rightarrow> log_entry list
     \<Rightarrow> (js_error + issued) \<times> filesystem \<times> log_entry list" where
  "generation_failed e fs logs =
     (case e of Error message \<Rightarrow>
        (Inl (Error (''Certificate generation failed: '' @ message)), fs,
         logs @ [(LogError, ''Certificate generation failed'')]))"

text \<open>
  \<^verbatim>\<open>generateCertificate(wipeData)\<close>, with the certificate directory before and after, and
  what was logged. The fields of the returned object bear the names of the source; the
  local variables \<^verbatim>\<open>certificateId\<close>, \<^verbatim>\<open>dataHash\<close>, \<^verbatim>\<open>signature\<close>, \<^verbatim>\<open>verificationUrl\<close> and
  \<^verbatim>\<open>pdfPath\<close> are written \<open>cid\<close>, \<open>hash\<close>, \<open>sig\<close>, \<open>url\<close> and \<open>pdf\<close>.
\<close>

definition generateCertificate ::
  "world \<Rightarrow> KMSService \<Rightarrow> filesystem \<Rightarrow> jsobject
     \<Rightarrow> (js_error + issued) \<times> filesystem \<times> log_entry list" where
  "generateCertificate w kms fs wipeData =
     (let cid = uuidv4 w;
          certificateData = certificateData_literal w wipeData;
          hash = generateDataHash w certificateData;
          certificateData = set_prop certificateData ''dataHash'' (JStr hash)
      in case signData w kms (JSON_stringify certificateData) of
           (Inl e, logs) \<Rightarrow> generation_failed e fs logs
         | (Inr sig, logs) \<Rightarrow>
             (let certificateData = set_prop certificateData ''signature'' (JStr sig);
                  url = template_text (env_value (process_env w ''API_BASE_URL''))
                          @ ''/api/certificate/verify/'' @ cid
              in case QRCode_toDataURL w url of
                   Inl e \<Rightarrow> generation_failed e fs logs
                 | Inr qrCodeDataUrl \<Rightarrow>
                     (case generatePDF w fs certificateData qrCodeDataUrl of
                        (Inl e, fs1) \<Rightarrow> generation_failed e fs1 logs
                      | (Inr pdf, fs1) \<Rightarrow>
                          (let metadataPath = cid @ ''.json''
                           in case writeFileSync w metadataPath certificateData of
                                Failed e partial \<Rightarrow>
                                  generation_failed e
                                    (if partial then fs1(metadataPath \<mapsto> Unparsable) else fs1)
                                    logs
                              | Completed \<Rightarrow>
                                  (Inr \<lparr>certificateId = cid,
                                        pdfPath = pdf,
                                        downloadUrl = ''/api/certificate/download/'' @ cid,
                                        verificationUrl = url,
                                        signature = sig,
                                        dataHash = hash\<rparr>,
                                   fs1(metadataPath \<mapsto>
                                         JsonObject (json_roundtrip_object certificateData)),
                                   logs @ [(LogInfo,
                                            ''Certificate generated successfully'')])))))"

text \<open>
  \<^verbatim>\<open>verifyCertificate(certificateId)\<close> answers \<^verbatim>\<open>{valid: true, certificateData, verifiedAt}\<close>
  or \<^verbatim>\<open>{valid: false, error}\<close>. The model also returns what the call did, in order: the
  call of \<^verbatim>\<open>kmsService.verifySignature\<close> with its arguments, what was logged, and the
  recomputation of the data hash.
\<close>

datatype verdict = Valid jsobject string | Invalid string

datatype event =
    Called_verifySignature string jsval
  | Called_generateDataHash jsobject
  | Logged log_entry

definition verifyCertificate ::
  "world \<Rightarrow> KMSService \<Rightarrow> filesystem \<Rightarrow> string \<Rightarrow> verdict \<times> event list" where
  "verifyCertificate w kms fs cid =
     (let metadataPath = cid @ ''.json''
      in case fs metadataPath of
           None \<Rightarrow> (Invalid ''Certificate not found'', [])
         | Some (JsonObject certificateData) \<Rightarrow>
             (let dataToVerify = delete_prop certificateData ''signature'';
                  dataString = JSON_stringify dataToVerify;
                  sig = get_prop certificateData ''signature'';
                  (isSignatureValid, logs) = verifySignature w kms dataString sig;
                  trace = Called_verifySignature dataString sig # map Logged logs
              in if \<not> isSignatureValid then (Invalid ''Invalid signature'', trace)
                 else
                   (let currentHash = generateDataHash w dataToVerify;
                        trace = trace @ [Called_generateDataHash dataToVerify]
                    in if JStr currentHash \<noteq> get_prop certificateData ''dataHash''
                       then (Invalid ''Data integrity check failed'', trace)
                       else (Valid certificateData (now_ISOString w), trace)))
         | Some _ \<Rightarrow>
             (Invalid ''Verification failed'',
              [Logged (LogError, ''Certificate verification failed'')]))"

section \<open>Auxiliary notions for the statements\<close>

text \<open>
  What the client of the bound provider answers to one verification request, before
  \<^verbatim>\<open>verifyWithAWS\<close>, \<^verbatim>\<open>verifyWithGCP\<close> and \<^verbatim>\<open>verifySignature\<close> catch anything: \<open>Inr b\<close> when
  the call completed and reported \<open>b\<close>, \<open>Inl e\<close> when it failed (network, timeout,
  authorisation, a bad key, or the signature could not be decoded).
\<close>

definition provider_answer ::
  "world \<Rightarrow> KMSService \<Rightarrow> string \<Rightarrow> jsval \<Rightarrow> js_error + bool" where
  "provider_answer w kms data sig =
     (case Buffer_from_base64 w sig of
        Inl e \<Rightarrow> Inl e
      | Inr signatureBuffer \<Rightarrow>
          (case provider kms of
             Aws \<Rightarrow> awsKms_verify w data signatureBuffer
           | Gcp \<Rightarrow> gcpKms_asymmetricVerify w (sha256_digest w data) signatureBuffer
           | Azure \<Rightarrow> Inl (Error ''Azure KMS verification not fully implemented in this demo'')
           | Local \<Rightarrow> crypto_verify w data signatureBuffer))"

text \<open>
  The certificate object of an issuance after \<^verbatim>\<open>certificateData.dataHash = dataHash\<close>, and
  after \<^verbatim>\<open>certificateData.signature = signature\<close>.
\<close>

definition certificate_with_hash :: "world \<Rightarrow> jsobject \<Rightarrow> jsobject" where
  "certificate_with_hash w wipeData =
     set_prop (certificateData_literal w wipeData) ''dataHash''
       (JStr (generateDataHash w (certificateData_literal w wipeData)))"

definition signed_certificate :: "world \<Rightarrow> jsobject \<Rightarrow> string \<Rightarrow> jsobject" where
  "signed_certificate w wipeData sig =
     set_prop (certificate_with_hash w wipeData) ''signature'' (JStr sig)"

definition wipeDetails_of :: "jsobject \<Rightarrow> jsobject" where
  "wipeDetails_of c = (case get_prop c ''wipeDetails'' of JObj d \<Rightarrow> d | _ \<Rightarrow> [])"

text \<open>
  The specification's words for the derived duration: the whole hours, minutes and
  seconds of a span of \<open>ms\<close> milliseconds, leading zero components left out.
\<close>

definition hms_text :: "int \<Rightarrow> string" where
  "hms_text ms =
     (let h = ms div 3600000; m = ms div 60000 mod 60; s = ms div 1000 mod 60
      in if h \<noteq> 0 then show_int h @ ''h '' @ show_int m @ ''m '' @ show_int s @ ''s''
         else if m \<noteq> 0 then show_int m @ ''m '' @ show_int s @ ''s''
         else show_int s @ ''s'')"





text \<open>The certificate object stored under an identifier, and a change made to it on disk.\<close>

definition stored_certificate :: "filesystem \<Rightarrow> string \<Rightarrow> jsobject" where
  "stored_certificate fs cid =
     (case fs (cid @ ''.json'') of Some (JsonObject c) \<Rightarrow> c | _ \<Rightarrow> [])"

definition overwrite :: "filesystem \<Rightarrow> string \<Rightarrow> jsobject \<Rightarrow> filesystem" where
  "overwrite fs cid c = fs(cid @ ''.json'' \<mapsto> JsonObject c)"

fun is_signature_call :: "event \<Rightarrow> bool" where
  "is_signature_call (Called_verifySignature d s) = True"
| "is_signature_call (Called_generateDataHash c) = False"
| "is_signature_call (Logged l) = False"

fun is_hash_call :: "event \<Rightarrow> bool" where
  "is_hash_call (Called_verifySignature d s) = False"
| "is_hash_call (Called_generateDataHash c) = True"
| "is_hash_call (Logged l) = False"

text \<open>
  Two values with the same content: objects with the same properties, whatever their
  order, at every nesting level; arrays with the same content position by position.
\<close>

inductive same_content :: "jsval \<Rightarrow> jsval \<Rightarrow> bool" where
  same_undefined: "same_content JUndefined JUndefined"
| same_null: "same_content JNull JNull"
| same_bool: "same_content (JBool b) (JBool b)"
| same_num: "same_content (JNum n) (JNum n)"
| same_str: "same_content (JStr s) (JStr s)"
| same_arr: "list_all2 same_content vs ws \<Longrightarrow> same_content (JArr vs) (JArr ws)"
| same_obj: "distinct (map fst ps) \<Longrightarrow> distinct (map fst qs) \<Longrightarrow>
             set (map fst ps) = set (map fst qs) \<Longrightarrow>
             (\<And>k v v'. (k, v) \<in> set ps \<Longrightarrow> (k, v') \<in> set qs \<Longrightarrow> same_content v v') \<Longrightarrow>
             same_content (JObj ps) (JObj qs)"

text \<open>The verification URL that an issuance encodes in the QR code.\<close>

definition verification_url :: "world \<Rightarrow> string" where
  "verification_url w =
     template_text (env_value (process_env w ''API_BASE_URL''))
       @ ''/api/certificate/verify/'' @ uuidv4 w"

text \<open>
  A certificate payload of the shape that \<^verbatim>\<open>generateCertificate\<close> builds: four top-level
  fields and the two nested objects \<open>wipeDetails\<close> and \<open>metadata\<close>.
\<close>

definition top_level_keys :: "string list" where
  "top_level_keys =
     [''certificateId'', ''timestamp'', ''version'', ''issuer'', ''wipeDetails'', ''metadata'']"

definition certificate_payload ::
  "jsval \<Rightarrow> jsval \<Rightarrow> jsval \<Rightarrow> jsval \<Rightarrow> jsobject \<Rightarrow> jsobject \<Rightarrow> jsobject" where
  "certificate_payload cid ts ver iss details meta =
     [(''certificateId'', cid), (''timestamp'', ts), (''version'', ver), (''issuer'', iss),
      (''wipeDetails'', JObj details), (''metadata'', JObj meta)]"

text \<open>
  The issuer written into a certificate, and the two texts that are hashed for one
  certificate: by \<^verbatim>\<open>generateCertificate\<close>, and by \<^verbatim>\<open>verifyCertificate\<close> on what was stored.
\<close>

definition issuer_name :: "world \<Rightarrow> string" where
  "issuer_name w =
     (case process_env w ''CERT_ISSUER_NAME'' of
        Some s \<Rightarrow> if s = [] then ''Secure Data Solutions'' else s
      | None \<Rightarrow> ''Secure Data Solutions'')"

definition hashed_at_issuance :: "world \<Rightarrow> string" where
  "hashed_at_issuance w =
     ''{'' @ quote ''certificateId'' @ '':'' @ quote (uuidv4 w) @ '','' @
     quote ''issuer'' @ '':'' @ quote (issuer_name w) @ '','' @
     quote ''metadata'' @ '':{},'' @
     quote ''timestamp'' @ '':'' @ quote (now_ISOString w) @ '','' @
     quote ''version'' @ '':'' @ quote ''1.0'' @ '','' @
     quote ''wipeDetails'' @ '':{}}''"

definition hashed_at_verification :: "world \<Rightarrow> string" where
  "hashed_at_verification w =
     ''{'' @ quote ''certificateId'' @ '':'' @ quote (uuidv4 w) @ '','' @
     quote ''dataHash'' @ '':'' @ quote (sha256_hex w (hashed_at_issuance w)) @ '','' @
     quote ''issuer'' @ '':'' @ quote (issuer_name w) @ '','' @
     quote ''metadata'' @ '':{},'' @
     quote ''timestamp'' @ '':'' @ quote (now_ISOString w) @ '','' @
     quote ''version'' @ '':'' @ quote ''1.0'' @ '','' @
     quote ''wipeDetails'' @ '':{}}''"

section \<open>A worked issuance\<close>

text \<open>
  The record of the specification's scenario (a three-pass DoD wipe of 90 seconds), issued
  by a process with no provider configured, so with the local key pair. \<open>sha256_table\<close>
  is SHA-256 on the two texts that this issuance and its verification hash; the local key
  pair is an idealised deterministic scheme whose only valid signature of a text is the
  one it produced.
\<close>

definition demo_wipeData :: jsobject where
  "demo_wipeData =
     [(''deviceId'', JStr ''dev-1''),
      (''serialNumber'', JStr ''SN1''),
      (''algorithm'', JStr ''dod''),
      (''passes'', JNum 3),
      (''startTime'', JStr ''2024-01-01T00:00:00.000Z''),
      (''endTime'', JStr ''2024-01-01T00:01:30.000Z''),
      (''status'', JStr ''success''),
      (''submissionId'', JStr ''0b9d0f4e-6a57-4c56-8a43-1f0e7c1d2a90''),
      (''submissionTime'', JStr ''2024-01-01T00:01:59.000Z''),
      (''serverVersion'', JStr ''1.0.0''),
      (''ipAddress'', JStr ''203.0.113.7'')]"

definition demo_id :: string where
  "demo_id = ''3f2b8c1e-7a4d-4e6b-9c0a-5d1e2f3a4b5c''"

definition sha256_table :: "string \<Rightarrow> string" where
  \<open>sha256_table s =
     (if s = ''{"certificateId":"3f2b8c1e-7a4d-4e6b-9c0a-5d1e2f3a4b5c","issuer":"Secure Data Solutions","metadata":{},"timestamp":"2024-01-01T00:02:00.000Z","version":"1.0","wipeDetails":{}}''
      then ''a8b451eb53b5ab45df664e27f1dc671e8bb792340074c1a71cfde1faeee9e404''
      else if s = ''{"certificateId":"3f2b8c1e-7a4d-4e6b-9c0a-5d1e2f3a4b5c","dataHash":"a8b451eb53b5ab45df664e27f1dc671e8bb792340074c1a71cfde1faeee9e404","issuer":"Secure Data Solutions","metadata":{},"timestamp":"2024-01-01T00:02:00.000Z","version":"1.0","wipeDetails":{}}''
      then ''4a7b22f08ba781be3394a67cc5bad78e3385521879342fd3a550ac9ef1d9a0c7''
      else ''e3b0c44298fc1c149afbf4c8996fb92427ae41e4649b934ca495991b7852b855'')\<close>

definition demo_world :: world where
  "demo_world =
     \<lparr>process_env = (\<lambda>name. None),
      uuidv4 = demo_id,
      now_ISOString = ''2024-01-01T00:02:00.000Z'',
      moment_valueOf =
        (\<lambda>v. if v = JStr ''2024-01-01T00:00:00.000Z'' then Some 1704067200000
             else if v = JStr ''2024-01-01T00:01:30.000Z'' then Some 1704067290000
             else None),
      sha256_hex = sha256_table,
      sha256_digest = sha256_table,
      Buffer_from_base64 =
        (\<lambda>v. case v of JStr s \<Rightarrow> Inr s | _ \<Rightarrow> Inl (Error ''ERR_INVALID_ARG_TYPE'')),
      awsKms_sign = (\<lambda>d. Inr (''aws:'' @ d)),
      awsKms_verify = (\<lambda>d s. Inr (s = ''aws:'' @ d)),
      gcpKms_asymmetricSign = (\<lambda>d. Inr (''gcp:'' @ d)),
      gcpKms_asymmetricVerify = (\<lambda>d s. Inr (s = ''gcp:'' @ d)),
      crypto_sign = (\<lambda>d. Inr (''local:'' @ d)),
      crypto_verify = (\<lambda>d s. Inr (s = ''local:'' @ d)),
      QRCode_toDataURL = (\<lambda>u. Inr (''data:image/png;base64,'' @ u)),
      pdf_stream = (\<lambda>c q. Completed),
      writeFileSync = (\<lambda>p c. Completed)\<rparr>"

definition demo_kms :: KMSService where
  "demo_kms = fst (KMSService_constructor demo_world)"

definition demo_store :: filesystem where
  "demo_store = fst (snd (generateCertificate demo_world demo_kms Map.empty demo_wipeData))"

text \<open>
  The same process with AWS configured, at a moment when the key management service
  cannot be reached for verification.
\<close>

definition aws_world :: world where
  "aws_world =
     demo_world\<lparr>process_env :=
       [''AWS_REGION'' \<mapsto> ''eu-west-1'', ''KMS_KEY_ID'' \<mapsto> ''alias/wipeout'']\<rparr>"

definition aws_outage_world :: world where
  "aws_outage_world =
     aws_world\<lparr>awsKms_verify := (\<lambda>d s. Inl (Error ''TimeoutError: connect ETIMEDOUT''))\<rparr>"

definition aws_kms :: KMSService where
  "aws_kms = fst (KMSService_constructor aws_world)"

definition aws_store :: filesystem where
  "aws_store = fst (snd (generateCertificate aws_world aws_kms Map.empty demo_wipeData))"






text \<open>The same process when the disk refuses the write of the certificate's JSON file.\<close>

definition disk_full_world :: world where
  "disk_full_world =
     demo_world\<lparr>writeFileSync :=
       (\<lambda>p c. Failed (Error ''ENOSPC: no space left on device, write'') False)\<rparr>"

text \<open>
  Two changes made to the stored certificate on disk: 7 passes for 3 in its
  \<open>wipeDetails\<close>, and another value in its \<open>dataHash\<close> field.
\<close>

definition demo_wipeDetails_7_passes :: jsobject where
  "demo_wipeDetails_7_passes =
     set_prop (wipeDetails_of (stored_certificate demo_store demo_id)) ''passes'' (JNum 7)"

definition demo_tampered_hash :: jsobject where
  "demo_tampered_hash =
     set_prop (stored_certificate demo_store demo_id) ''dataHash''
       (JStr ''0000000000000000000000000000000000000000000000000000000000000000'')"

section \<open>Properties of objects and of the JSON round trip\<close>

lemma get_prop_set_prop:
  "get_prop (set_prop ps k v) k' = (if k' = k then v else get_prop ps k')"
proof (cases "k \<in> set (map fst ps)")
  case True
  have "map_of (map (\<lambda>(a, b). if a = k then (a, v) else (a, b)) ps) k' =
          (if k' = k then (if k \<in> set (map fst ps) then Some v else None) else map_of ps k')"
    by (induction ps) force+
  with True show ?thesis by (simp add: get_prop_def set_prop_def)
next
  case False
  then have "map_of ps k = None" by (simp add: map_of_eq_None_iff)
  with False show ?thesis
    by (auto simp: get_prop_def set_prop_def map_add_def split: option.splits)
qed

lemma keys_set_prop:
  "map fst (set_prop ps k v) = (if k \<in> set (map fst ps) then map fst ps else map fst ps @ [k])"
  by (induction ps) (auto simp: set_prop_def)

lemma json_roundtrip_undefined [simp]: "json_roundtrip v = JUndefined \<longleftrightarrow> v = JUndefined"
  by (cases v) simp_all

lemma json_roundtrip_JObj: "json_roundtrip (JObj ps) = JObj (json_roundtrip_object ps)"
  by (simp add: json_roundtrip_object_def)

lemma get_prop_roundtrip:
  "distinct (map fst ps) \<Longrightarrow>
     get_prop (json_roundtrip_object ps) k = json_roundtrip (get_prop ps k)"
proof (induction ps)
  case Nil
  then show ?case by (simp add: get_prop_def json_roundtrip_object_def)
next
  case (Cons p ps)
  obtain k' v' where p: "p = (k', v')" by (cases p)
  from Cons.prems p have notin: "k' \<notin> set (map fst ps)" and d: "distinct (map fst ps)" by auto
  have ih: "get_prop (json_roundtrip_object ps) k = json_roundtrip (get_prop ps k)"
    using Cons.IH d by simp
  show ?case
  proof (cases "k = k'")
    case False
    with ih p show ?thesis by (simp add: get_prop_def json_roundtrip_object_def)
  next
    case True
    from notin have "map_of ps k' = None" by (simp add: map_of_eq_None_iff)
    with ih True p show ?thesis
      by (auto simp: get_prop_def json_roundtrip_object_def)
  qed
qed

section \<open>What a successful issuance has done\<close>

lemma generation_failed_not_Inr [simp]:
  "generation_failed e fs logs \<noteq> (Inr r, fs', logs')"
  by (cases e) (simp add: generation_failed_def)

lemma literal_certificateId:
  "get_prop (certificateData_literal w wipeData) ''certificateId'' = JStr (uuidv4 w)"
  by (simp add: certificateData_literal_def get_prop_def)

lemma signed_certificate_id:
  "template_text (get_prop (signed_certificate w wipeData s) ''certificateId'') = uuidv4 w"
  by (simp add: signed_certificate_def certificate_with_hash_def get_prop_set_prop
      literal_certificateId)

lemma generateCertificate_success:
  assumes "generateCertificate w kms fs wipeData = (Inr r, fs', logs)"
  shows "certificateId r = uuidv4 w \<and>
         dataHash r = generateDataHash w (certificateData_literal w wipeData) \<and>
         fst (signData w kms (JSON_stringify (certificate_with_hash w wipeData)))
           = Inr (signature r) \<and>
         pdfPath r = uuidv4 w @ ''.pdf'' \<and>
         (\<exists>qr. fs' =
            (fs(uuidv4 w @ ''.pdf'' \<mapsto>
                  PdfDocument (signed_certificate w wipeData (signature r)) qr))
              (uuidv4 w @ ''.json'' \<mapsto>
                  JsonObject (json_roundtrip_object
                                (signed_certificate w wipeData (signature r)))))"
  using assms
  unfolding generateCertificate_def Let_def
  apply (fold certificate_with_hash_def)
  apply (fold signed_certificate_def)
  apply (simp only: generatePDF_def Let_def signed_certificate_id)
  apply (auto split: prod.splits sum.splits io_outcome.splits)
  done

lemma literal_keys_distinct: "distinct (map fst (certificateData_literal w wipeData))"
  by (simp add: certificateData_literal_def)

lemma signed_keys_distinct: "distinct (map fst (signed_certificate w wipeData s))"
  by (simp add: signed_certificate_def certificate_with_hash_def keys_set_prop
      certificateData_literal_def)

lemma stored_after_issue:
  assumes "generateCertificate w kms fs wipeData = (Inr r, fs', logs)"
  shows "stored_certificate fs' (certificateId r) =
           json_roundtrip_object (signed_certificate w wipeData (signature r))"
  using generateCertificate_success[OF assms]
  by (auto simp: stored_certificate_def)

lemma calculateDuration_hms:
  assumes "0 \<le> d" and "d \<le> 2 ^ 53"
      and "- max_time_value \<le> t" and "t + d \<le> max_time_value"
  shows "calculateDuration (Some t) (Some (t + d)) = hms_text d"
proof -
  have v: "valid_time (Some t) = Some t" "valid_time (Some (t + d)) = Some (t + d)"
    using assms by (simp_all add: valid_time_def)
  have r: "to_double d = d"
    using assms(1,2) by (simp add: to_double_def max_safe_integer_def)
  have a: "absFloor_div d 1000 = d div 1000" using assms(1) by (simp add: absFloor_div_def)
  have "0 \<le> d div 1000" using assms(1) by simp
  then have b: "absFloor_div (d div 1000) 60 = d div 60000"
    by (simp add: absFloor_div_def div_mult2_eq[symmetric])
  have rem: "js_rem x 60 = x mod 60" if "0 \<le> x" for x
    using that by (simp add: js_rem_def absFloor_div_def minus_mult_div_eq_mod)
  have c: "js_rem (d div 60000) 60 = d div 60000 mod 60" by (rule rem) (use assms(1) in simp)
  have e: "js_rem (d div 1000) 60 = d div 1000 mod 60" by (rule rem) (use assms(1) in simp)
  have h: "0 \<le> d div 3600000" using assms(1) by simp
  have m: "0 \<le> d div 60000 mod 60" by simp
  show ?thesis
    using h m by (auto simp: calculateDuration_def v r hms_text_def Let_def a b c e)
qed

lemma hms_90: "hms_text 90000 = ''1m 30s''"
  by (simp add: hms_text_def show_int_def show_digits.simps)

section \<open>The derived duration\<close>

lemma time_values_in_range:
  "- max_time_value \<le> 1704067200000" "1704067200000 + 90000 \<le> max_time_value"
  by (simp_all add: max_time_value_def)

text \<open>
  Claim C10. When moment.js reads \<open>startTime\<close> as the instant \<open>t\<close> and \<open>endTime\<close> as
  \<open>t + d\<close> milliseconds, both valid time values, with \<open>0 \<le> d \<le> 2^53\<close> (the span in
  which the difference of two times is exact), the certificate that a successful
  issuance has stored carries in \<open>wipeDetails.duration\<close> the whole hours, minutes and
  seconds of \<open>d\<close> with the leading zero components left out (\<open>hms_text d\<close>); for a wipe
  of 90 seconds (\<open>d = 90000\<close>) the text is \<^verbatim>\<open>1m 30s\<close>.
\<close>

theorem issued_duration_text:
  assumes "moment_valueOf w (get_prop wipeData ''startTime'') = Some t"
      and "moment_valueOf w (get_prop wipeData ''endTime'') = Some (t + d)"
      and "0 \<le> d" and "d \<le> 2 ^ 53"
      and "- max_time_value \<le> t" and "t + d \<le> max_time_value"
      and "generateCertificate w kms fs wipeData = (Inr r, fs', logs)"
  shows "get_prop (wipeDetails_of (stored_certificate fs' (certificateId r))) ''duration''
           = JStr (hms_text d)
         \<and> (d = 90000 \<longrightarrow>
              get_prop (wipeDetails_of (stored_certificate fs' (certificateId r))) ''duration''
                = JStr ''1m 30s'')"
proof -
  let ?c = "signed_certificate w wipeData (signature r)"
  have wd: "get_prop ?c ''wipeDetails'' = get_prop (certificateData_literal w wipeData) ''wipeDetails''"
    by (simp add: signed_certificate_def certificate_with_hash_def get_prop_set_prop)
  obtain det where det: "get_prop (certificateData_literal w wipeData) ''wipeDetails'' = JObj det"
    and dist: "distinct (map fst det)"
    and dur: "get_prop det ''duration'' = JStr (calculateDuration
                                (moment_valueOf w (get_prop wipeData ''startTime''))
                                (moment_valueOf w (get_prop wipeData ''endTime'')))"
    by (simp add: certificateData_literal_def get_prop_def)
  have "get_prop (stored_certificate fs' (certificateId r)) ''wipeDetails''
          = JObj (json_roundtrip_object det)"
    by (simp add: stored_after_issue[OF assms(7)] get_prop_roundtrip signed_keys_distinct wd det
        json_roundtrip_JObj del: json_roundtrip.simps(7))
  then have "get_prop (wipeDetails_of (stored_certificate fs' (certificateId r))) ''duration''
          = JStr (calculateDuration (Some t) (Some (t + d)))"
    by (simp add: wipeDetails_of_def get_prop_roundtrip dist dur assms(1,2))
  then show ?thesis
    by (simp add: calculateDuration_hms[OF assms(3,4,5,6)] hms_90)
qed

theorem issued_duration_text_witness:
  "moment_valueOf demo_world (get_prop demo_wipeData ''startTime'') = Some 1704067200000
   \<and> moment_valueOf demo_world (get_prop demo_wipeData ''endTime'') = Some (1704067200000 + 90000)
   \<and> (90000 :: int) \<le> 2 ^ 53
   \<and> - max_time_value \<le> 1704067200000
   \<and> 1704067200000 + 90000 \<le> max_time_value
   \<and> \<not> isl (fst (generateCertificate demo_world demo_kms Map.empty demo_wipeData))
   \<and> get_prop (wipeDetails_of (stored_certificate demo_store demo_id)) ''duration''
       = JStr ''1m 30s''"
proof -
  let ?g = "generateCertificate demo_world demo_kms Map.empty demo_wipeData"
  have h1: "moment_valueOf demo_world (get_prop demo_wipeData ''startTime'') = Some 1704067200000"
    by code_simp
  have h2: "moment_valueOf demo_world (get_prop demo_wipeData ''endTime'')
              = Some (1704067200000 + 90000)"
    by code_simp
  have h3: "(0::int) \<le> 90000" by simp
  have h4: "(90000::int) \<le> 2 ^ 53" by simp
  note h5 = time_values_in_range(1) and h6 = time_values_in_range(2)
  have ok: "\<not> isl (fst ?g)" by code_simp
  then have h7: "?g = (Inr (projr (fst ?g)), demo_store, snd (snd ?g))"
    by (simp add: demo_store_def prod_eq_iff)
  have cid: "certificateId (projr (fst ?g)) = demo_id"
    using generateCertificate_success[OF h7] by (simp add: demo_world_def)
  from issued_duration_text[OF h1 h2 h3 h4 h5 h6 h7, THEN conjunct2] cid h1 h2 h4 h5 h6 ok
  show ?thesis by simp
qed

text \<open>
  Beyond \<open>2^53\<close> milliseconds the difference of the two times is itself rounded: from
  the earliest time value to one millisecond before the latest, the duration read is
  that of the whole range.
\<close>

lemma calculateDuration_rounds_long_spans:
  "calculateDuration (Some (- 8640000000000000)) (Some 8639999999999999) = ''4800000000h 0m 0s''"
  by code_simp


section \<open>Provider selection\<close>






section \<open>What verification answers for a stored certificate\<close>

lemma verifySignature_answer:
  "fst (verifySignature w kms data sig) = (provider_answer w kms data sig = Inr True)"
  by (cases "provider kms")
     (auto simp: verifySignature_def provider_answer_def verifyWithAWS_def verifyWithGCP_def
        verifyWithAzure_def verifyWithLocal_def split: sum.splits)

lemma verifyCertificate_stored:
  assumes "fs (cid @ ''.json'') = Some (JsonObject c)"
  shows "fst (verifyCertificate w kms fs cid) =
     (if provider_answer w kms (JSON_stringify (delete_prop c ''signature''))
            (get_prop c ''signature'') \<noteq> Inr True
      then Invalid ''Invalid signature''
      else if JStr (generateDataHash w (delete_prop c ''signature'')) \<noteq> get_prop c ''dataHash''
      then Invalid ''Data integrity check failed''
      else Valid c (now_ISOString w))"
  using assms verifySignature_answer[of w kms "JSON_stringify (delete_prop c ''signature'')"
      "get_prop c ''signature''"]
  by (auto simp: verifyCertificate_def Let_def split: prod.splits)

lemma verifyCertificate_trace:
  assumes "fs (cid @ ''.json'') = Some (JsonObject c)"
  shows "snd (verifyCertificate w kms fs cid) =
     Called_verifySignature (JSON_stringify (delete_prop c ''signature''))
         (get_prop c ''signature'')
       # map Logged (snd (verifySignature w kms (JSON_stringify (delete_prop c ''signature''))
                            (get_prop c ''signature'')))
       @ (if fst (verifySignature w kms (JSON_stringify (delete_prop c ''signature''))
                    (get_prop c ''signature''))
          then [Called_generateDataHash (delete_prop c ''signature'')] else [])"
  using assms by (simp add: verifyCertificate_def Let_def split: prod.splits)


lemma overwrite_read [simp]: "overwrite fs cid c (cid @ ''.json'') = Some (JsonObject c)"
  by (simp add: overwrite_def)

section \<open>Tampering with the signature\<close>





section \<open>A provider that cannot be reached\<close>

text \<open>
  Claim C4 (as the code has it). The verdict type of \<^verbatim>\<open>verifyCertificate\<close> has no outcome
  for an unavailable provider. When the provider's verification call fails (a network
  error, a timeout, an authorisation error, an undecodable signature), the failure is
  caught, \<^verbatim>\<open>verifySignature\<close> answers \<^verbatim>\<open>false\<close>, and the verdict for the stored certificate
  is \<^verbatim>\<open>{valid: false, error: 'Invalid signature'}\<close>: the same verdict as for a signature
  that the provider reports invalid.
\<close>

theorem provider_failure_reported_as_invalid_signature:
  assumes "fs (cid @ ''.json'') = Some (JsonObject c)"
      and "provider_answer w kms (JSON_stringify (delete_prop c ''signature''))
             (get_prop c ''signature'') = Inl e"
  shows "fst (verifySignature w kms (JSON_stringify (delete_prop c ''signature''))
                (get_prop c ''signature'')) = False
         \<and> fst (verifyCertificate w kms fs cid) = Invalid ''Invalid signature''"
  using assms
  by (simp add: verifyCertificate_stored[where c=c] verifySignature_answer)

theorem provider_failure_reported_as_invalid_signature_witness:
  "demo_store (demo_id @ ''.json'') = Some (JsonObject (stored_certificate demo_store demo_id))
   \<and> provider_answer demo_world \<lparr>provider = Azure\<rparr>
         (JSON_stringify (delete_prop (stored_certificate demo_store demo_id) ''signature''))
         (get_prop (stored_certificate demo_store demo_id) ''signature'')
       = Inl (Error ''Azure KMS verification not fully implemented in this demo'')
   \<and> fst (verifyCertificate demo_world \<lparr>provider = Azure\<rparr> demo_store demo_id)
       = Invalid ''Invalid signature''"
proof -
  have h1: "demo_store (demo_id @ ''.json'')
              = Some (JsonObject (stored_certificate demo_store demo_id))"
    by code_simp
  have h2: "provider_answer demo_world \<lparr>provider = Azure\<rparr>
         (JSON_stringify (delete_prop (stored_certificate demo_store demo_id) ''signature''))
         (get_prop (stored_certificate demo_store demo_id) ''signature'')
       = Inl (Error ''Azure KMS verification not fully implemented in this demo'')"
    by code_simp
  from provider_failure_reported_as_invalid_signature[where fs=demo_store and cid=demo_id,
      OF h1 h2] h1 h2 show ?thesis
    by simp
qed

text \<open>
  The claim as the specification states it fails: AWS is configured, the certificate was
  issued and signed by AWS, and at verification the remote call times out. The verdict
  is \<^verbatim>\<open>'Invalid signature'\<close>.
\<close>

theorem provider_timeout_counterexample:
  "provider_answer aws_outage_world aws_kms
       (JSON_stringify (delete_prop (stored_certificate aws_store demo_id) ''signature''))
       (get_prop (stored_certificate aws_store demo_id) ''signature'')
     = Inl (Error ''TimeoutError: connect ETIMEDOUT'')
   \<and> fst (verifyCertificate aws_outage_world aws_kms aws_store demo_id)
     = Invalid ''Invalid signature''"
  by code_simp

section \<open>Tampering with the attested data\<close>

text \<open>
  Claim C2 (as the code has it). Take the certificate that an issuance has stored and
  replace its \<open>wipeDetails\<close>, \<open>metadata\<close>, \<open>timestamp\<close> or \<open>issuer\<close>. The signature is
  checked first, over the text of the changed object: if the provider does not report
  the stored signature valid for that text, verification answers
  \<^verbatim>\<open>{valid: false, error: 'Invalid signature'}\<close>, and the data hash is not compared.
\<close>

theorem mutated_data_is_rejected_by_signature:
  assumes "generateCertificate w kms fs wipeData = (Inr r, fs', logs)"
      and "c = stored_certificate fs' (certificateId r)"
      and "field \<in> {''wipeDetails'', ''metadata'', ''timestamp'', ''issuer''}"
      and "c' = set_prop c field v"
      and "provider_answer w kms (JSON_stringify (delete_prop c' ''signature''))
             (get_prop c ''signature'') \<noteq> Inr True"
  shows "fst (verifyCertificate w kms (overwrite fs' (certificateId r) c') (certificateId r))
           = Invalid ''Invalid signature''
         \<and> \<not> list_ex is_hash_call
               (snd (verifyCertificate w kms (overwrite fs' (certificateId r) c')
                       (certificateId r)))"
proof -
  have st: "overwrite fs' (certificateId r) c' (certificateId r @ ''.json'')
              = Some (JsonObject c')"
    by simp
  from assms(3) have "field \<noteq> ''signature''" by auto
  then have sig: "get_prop c' ''signature'' = get_prop c ''signature''"
    by (simp add: assms(4) get_prop_set_prop)
  with assms(5) have rej: "provider_answer w kms (JSON_stringify (delete_prop c' ''signature''))
             (get_prop c' ''signature'') \<noteq> Inr True"
    by simp
  have v: "fst (verifyCertificate w kms (overwrite fs' (certificateId r) c') (certificateId r))
           = Invalid ''Invalid signature''"
    using verifyCertificate_stored[where fs="overwrite fs' (certificateId r) c'"
        and cid="certificateId r" and c=c' and w=w and kms=kms, OF st] rej
    by simp
  have t: "\<not> list_ex is_hash_call
               (snd (verifyCertificate w kms (overwrite fs' (certificateId r) c')
                       (certificateId r)))"
    using verifyCertificate_trace[where fs="overwrite fs' (certificateId r) c'"
        and cid="certificateId r" and c=c' and w=w and kms=kms, OF st] rej
    by (simp add: verifySignature_answer list_ex_iff image_iff)
  from v t show ?thesis by simp
qed

theorem mutated_data_is_rejected_by_signature_witness:
  "\<not> isl (fst (generateCertificate demo_world demo_kms Map.empty demo_wipeData))
   \<and> provider_answer demo_world demo_kms
         (JSON_stringify (delete_prop
            (set_prop (stored_certificate demo_store demo_id) ''timestamp''
               (JStr ''2023-01-01T00:00:00.000Z'')) ''signature''))
         (get_prop (stored_certificate demo_store demo_id) ''signature'') = Inr False
   \<and> fst (verifyCertificate demo_world demo_kms
            (overwrite demo_store demo_id
               (set_prop (stored_certificate demo_store demo_id) ''timestamp''
                  (JStr ''2023-01-01T00:00:00.000Z'')))
            demo_id)
       = Invalid ''Invalid signature''"
proof -
  let ?g = "generateCertificate demo_world demo_kms Map.empty demo_wipeData"
  let ?c' = "set_prop (stored_certificate demo_store demo_id) ''timestamp''
               (JStr ''2023-01-01T00:00:00.000Z'')"
  have ok: "\<not> isl (fst ?g)" by code_simp
  then have h1: "?g = (Inr (projr (fst ?g)), demo_store, snd (snd ?g))"
    by (simp add: demo_store_def prod_eq_iff)
  have cid: "certificateId (projr (fst ?g)) = demo_id"
    using generateCertificate_success[OF h1] by (simp add: demo_world_def)
  have h2: "stored_certificate demo_store demo_id
              = stored_certificate demo_store (certificateId (projr (fst ?g)))"
    by (simp add: cid)
  have h3: "''timestamp'' \<in> {''wipeDetails'', ''metadata'', ''timestamp'', ''issuer''}"
    by simp
  have ans: "provider_answer demo_world demo_kms
         (JSON_stringify (delete_prop ?c' ''signature''))
         (get_prop (stored_certificate demo_store demo_id) ''signature'') = Inr False"
    by code_simp
  then have h5: "provider_answer demo_world demo_kms
         (JSON_stringify (delete_prop ?c' ''signature''))
         (get_prop (stored_certificate demo_store demo_id) ''signature'') \<noteq> Inr True"
    by simp
  from mutated_data_is_rejected_by_signature[OF h1 h2 h3 refl h5] ok ans show ?thesis
    by (simp add: cid)
qed

text \<open>
  The claim as the specification states it fails: after one field of the stored
  \<open>wipeDetails\<close> is changed (7 passes for 3), the reason given is the signature, not the
  data integrity.
\<close>

theorem mutated_wipeDetails_counterexample:
  "fst (verifyCertificate demo_world demo_kms
          (overwrite demo_store demo_id
             (set_prop (stored_certificate demo_store demo_id) ''wipeDetails''
                (JObj demo_wipeDetails_7_passes)))
          demo_id)
     = Invalid ''Invalid signature''
   \<and> Invalid ''Invalid signature'' \<noteq> Invalid ''Data integrity check failed''"
  by code_simp

section \<open>The order of the two checks\<close>

text \<open>
  Claim C8 (as the code has it). For every stored certificate, the first thing
  \<^verbatim>\<open>verifyCertificate\<close> does is to call \<^verbatim>\<open>kmsService.verifySignature\<close> on the text of the
  object without its signature. The data hash is recomputed after that call, and only
  when the provider has reported the signature valid: a rejected signature ends the
  verification before any hash is computed.
\<close>

theorem signature_call_precedes_hash:
  assumes "fs (cid @ ''.json'') = Some (JsonObject c)"
  shows "\<exists>logs. snd (verifyCertificate w kms fs cid) =
           Called_verifySignature (JSON_stringify (delete_prop c ''signature''))
               (get_prop c ''signature'')
             # map Logged logs
             @ (if provider_answer w kms (JSON_stringify (delete_prop c ''signature''))
                     (get_prop c ''signature'') = Inr True
                then [Called_generateDataHash (delete_prop c ''signature'')] else [])"
  using verifyCertificate_trace[where fs=fs and cid=cid and c=c and w=w and kms=kms, OF assms]
  by (auto simp: verifySignature_answer)

theorem signature_call_precedes_hash_witness:
  "demo_store (demo_id @ ''.json'') = Some (JsonObject (stored_certificate demo_store demo_id))
   \<and> (\<exists>logs. snd (verifyCertificate demo_world demo_kms demo_store demo_id) =
           Called_verifySignature
               (JSON_stringify (delete_prop (stored_certificate demo_store demo_id) ''signature''))
               (get_prop (stored_certificate demo_store demo_id) ''signature'')
             # map Logged logs
             @ [Called_generateDataHash
                  (delete_prop (stored_certificate demo_store demo_id) ''signature'')])"
proof -
  have h1: "demo_store (demo_id @ ''.json'')
              = Some (JsonObject (stored_certificate demo_store demo_id))"
    by code_simp
  have a: "provider_answer demo_world demo_kms
             (JSON_stringify (delete_prop (stored_certificate demo_store demo_id) ''signature''))
             (get_prop (stored_certificate demo_store demo_id) ''signature'') = Inr True"
    by code_simp
  from signature_call_precedes_hash[where fs=demo_store and cid=demo_id
      and w=demo_world and kms=demo_kms, OF h1] a h1
  show ?thesis by simp
qed

text \<open>
  The claim as the specification states it fails: the stored \<open>dataHash\<close> of the issued
  certificate is overwritten, so that the recomputed hash cannot match it; verification
  calls the signature verification all the same, and never recomputes the hash.
\<close>

theorem hash_tampered_counterexample:
  "JStr (generateDataHash demo_world (delete_prop demo_tampered_hash ''signature''))
     \<noteq> get_prop demo_tampered_hash ''dataHash''
   \<and> list_ex is_signature_call
       (snd (verifyCertificate demo_world demo_kms
               (overwrite demo_store demo_id demo_tampered_hash) demo_id))
   \<and> \<not> list_ex is_hash_call
       (snd (verifyCertificate demo_world demo_kms
               (overwrite demo_store demo_id demo_tampered_hash) demo_id))"
  by code_simp

section \<open>What an issuance leaves in the certificate directory\<close>

lemma generateCertificate_cases:
  "generateCertificate w kms fs wipeData =
     (case signData w kms (JSON_stringify (certificate_with_hash w wipeData)) of
        (Inl e, logs) \<Rightarrow> generation_failed e fs logs
      | (Inr sig, logs) \<Rightarrow>
          (case QRCode_toDataURL w (verification_url w) of
             Inl e \<Rightarrow> generation_failed e fs logs
           | Inr qr \<Rightarrow>
               (case pdf_stream w (signed_certificate w wipeData sig) qr of
                  Failed e partial \<Rightarrow>
                    generation_failed e
                      (if partial then fs(uuidv4 w @ ''.pdf'' \<mapsto> Unparsable) else fs) logs
                | Completed \<Rightarrow>
                    (case writeFileSync w (uuidv4 w @ ''.json'')
                            (signed_certificate w wipeData sig) of
                       Failed e partial \<Rightarrow>
                         generation_failed e
                           (if partial
                            then (fs(uuidv4 w @ ''.pdf'' \<mapsto>
                                       PdfDocument (signed_certificate w wipeData sig) qr))
                                   (uuidv4 w @ ''.json'' \<mapsto> Unparsable)
                            else fs(uuidv4 w @ ''.pdf'' \<mapsto>
                                      PdfDocument (signed_certificate w wipeData sig) qr))
                           logs
                     | Completed \<Rightarrow>
                         (Inr \<lparr>certificateId = uuidv4 w,
                               pdfPath = uuidv4 w @ ''.pdf'',
                               downloadUrl = ''/api/certificate/download/'' @ uuidv4 w,
                               verificationUrl = verification_url w,
                               signature = sig,
                               dataHash = generateDataHash w
                                            (certificateData_literal w wipeData)\<rparr>,
                          (fs(uuidv4 w @ ''.pdf'' \<mapsto>
                                PdfDocument (signed_certificate w wipeData sig) qr))
                            (uuidv4 w @ ''.json'' \<mapsto>
                                JsonObject (json_roundtrip_object
                                              (signed_certificate w wipeData sig))),
                          logs @ [(LogInfo, ''Certificate generated successfully'')])))))"
  unfolding generateCertificate_def Let_def
  apply (fold certificate_with_hash_def)
  apply (fold signed_certificate_def)
  apply (fold verification_url_def)
  apply (simp only: generatePDF_def Let_def signed_certificate_id)
  apply (simp split: prod.splits sum.splits io_outcome.splits)
  done

lemma generation_failedD:
  "generation_failed e fs logs = (res, fs', logs') \<Longrightarrow> isl res \<and> fs' = fs"
  by (cases e) (auto simp: generation_failed_def)

text \<open>
  Claim C7 (as the code has it). An issuance touches no file but the PDF and the JSON
  file of the new identifier. When signing fails, or the QR encoding fails, it throws
  and the directory is as before. When it returns, the JSON file holds the complete,
  signed certificate and the PDF is there. The JSON file of the new identifier, once
  changed, holds either that complete certificate or what a failed write has left.
  Nothing is rolled back, and nothing is written to a temporary place first.
\<close>

theorem issuance_effects:
  assumes "generateCertificate w kms fs wipeData = (res, fs', logs)"
  shows "(\<forall>p. p \<noteq> uuidv4 w @ ''.pdf'' \<and> p \<noteq> uuidv4 w @ ''.json'' \<longrightarrow> fs' p = fs p)
     \<and> (isl (fst (signData w kms (JSON_stringify (certificate_with_hash w wipeData))))
          \<longrightarrow> isl res \<and> fs' = fs)
     \<and> (isl (QRCode_toDataURL w (verification_url w)) \<longrightarrow> isl res \<and> fs' = fs)
     \<and> (\<not> isl res \<longrightarrow>
           fs' (uuidv4 w @ ''.json'') =
             Some (JsonObject (json_roundtrip_object
                                 (signed_certificate w wipeData (signature (projr res)))))
           \<and> (\<exists>qr. fs' (uuidv4 w @ ''.pdf'') =
                 Some (PdfDocument (signed_certificate w wipeData (signature (projr res))) qr)))
     \<and> (fs' (uuidv4 w @ ''.json'') = fs (uuidv4 w @ ''.json'')
          \<or> fs' (uuidv4 w @ ''.json'') = Some Unparsable
          \<or> (\<exists>sig. fst (signData w kms (JSON_stringify (certificate_with_hash w wipeData)))
                      = Inr sig
                \<and> fs' (uuidv4 w @ ''.json'') =
                    Some (JsonObject (json_roundtrip_object
                                        (signed_certificate w wipeData sig)))))"
  using assms
  unfolding generateCertificate_cases
  by (auto split: prod.splits sum.splits io_outcome.splits if_splits dest!: generation_failedD)

theorem issuance_effects_witness:
  "\<not> isl (fst (generateCertificate demo_world demo_kms Map.empty demo_wipeData))
   \<and> demo_store (demo_id @ ''.json'') =
       Some (JsonObject (json_roundtrip_object
         (signed_certificate demo_world demo_wipeData
            (signature (projr (fst (generateCertificate demo_world demo_kms Map.empty
                                      demo_wipeData)))))))
   \<and> demo_store ''another-certificate.json'' = None"
proof -
  let ?g = "generateCertificate demo_world demo_kms Map.empty demo_wipeData"
  have ok: "\<not> isl (fst ?g)" by code_simp
  have h: "?g = (fst ?g, demo_store, snd (snd ?g))"
    by (simp add: demo_store_def prod_eq_iff)
  have u: "uuidv4 demo_world = demo_id" by (simp add: demo_world_def)
  have n: "''another-certificate.json'' \<noteq> demo_id @ ''.pdf''
           \<and> ''another-certificate.json'' \<noteq> demo_id @ ''.json''"
    by (simp add: demo_id_def)
  from issuance_effects[OF h] ok n show ?thesis
    by (simp add: u)
qed

text \<open>
  The claim as the specification states it fails: the directory is empty, the PDF of the
  new certificate is rendered and written, and then the write of the JSON file is
  refused. The issuance throws, and the PDF of the new identifier stays in the
  directory without its JSON file.
\<close>

theorem failed_write_counterexample:
  "isl (fst (generateCertificate disk_full_world demo_kms Map.empty demo_wipeData))
   \<and> fst (snd (generateCertificate disk_full_world demo_kms Map.empty demo_wipeData))
         (demo_id @ ''.pdf'') \<noteq> None
   \<and> fst (snd (generateCertificate disk_full_world demo_kms Map.empty demo_wipeData))
         (demo_id @ ''.json'') = None"
  by code_simp

section \<open>What the data hash covers\<close>

lemma top_keys_sorted:
  "sort [''certificateId'', ''timestamp'', ''version'', ''issuer'', ''wipeDetails'', ''metadata'']
     = [''certificateId'', ''issuer'', ''metadata'', ''timestamp'', ''version'', ''wipeDetails'']"
  by code_simp

lemma top_keys_property_list:
  "property_list [''certificateId'', ''issuer'', ''metadata'', ''timestamp'', ''version'',
                  ''wipeDetails'']
     = [''certificateId'', ''issuer'', ''metadata'', ''timestamp'', ''version'', ''wipeDetails'']"
  by (simp add: property_list_def)

lemma SerializeJSONObject_no_key:
  assumes "set (map fst sps) \<inter> set ks = {}"
  shows "SerializeJSONObject (Some ks) sps = ''{}''"
proof -
  have "\<And>k. k \<in> set ks \<Longrightarrow> map_of sps k = None"
    using assms by (auto simp: map_of_eq_None_iff)
  then have "concat (map (\<lambda>k. case map_of sps k of
                                 Some (Some s) \<Rightarrow> [quote k @ '':'' @ s]
                               | _ \<Rightarrow> []) ks) = []"
    by (induction ks) auto
  then show ?thesis
    unfolding SerializeJSONObject_def Let_def option.case by (simp only: join_comma.simps) simp
qed

lemma nested_object_is_empty:
  assumes "set (map fst ps) \<inter> set ks = {}"
  shows "SerializeJSONProperty (Some ks) (JObj ps) = Some ''{}''"
proof -
  have "set (map fst (map (map_prod id (SerializeJSONProperty (Some ks))) ps)) \<inter> set ks = {}"
    using assms by (simp add: comp_def)
  then show ?thesis by (simp add: SerializeJSONObject_no_key del: set_map)
qed

lemma payload_dataString:
  assumes "set (map fst details) \<inter> set top_level_keys = {}"
      and "set (map fst meta) \<inter> set top_level_keys = {}"
  shows "JSON_stringify_replacer (certificate_payload cid ts ver iss details meta)
           (sort (map fst (certificate_payload cid ts ver iss details meta)))
       = SerializeJSONObject
           (Some [''certificateId'', ''issuer'', ''metadata'', ''timestamp'', ''version'',
                  ''wipeDetails''])
           [(''certificateId'', SerializeJSONProperty (Some [''certificateId'', ''issuer'',
               ''metadata'', ''timestamp'', ''version'', ''wipeDetails'']) cid),
            (''timestamp'', SerializeJSONProperty (Some [''certificateId'', ''issuer'',
               ''metadata'', ''timestamp'', ''version'', ''wipeDetails'']) ts),
            (''version'', SerializeJSONProperty (Some [''certificateId'', ''issuer'',
               ''metadata'', ''timestamp'', ''version'', ''wipeDetails'']) ver),
            (''issuer'', SerializeJSONProperty (Some [''certificateId'', ''issuer'',
               ''metadata'', ''timestamp'', ''version'', ''wipeDetails'']) iss),
            (''wipeDetails'', Some ''{}''),
            (''metadata'', Some ''{}'')]"
proof -
  let ?K = "[''certificateId'', ''issuer'', ''metadata'', ''timestamp'', ''version'',
             ''wipeDetails'']"
  have s: "set ?K = set top_level_keys" by (auto simp: top_level_keys_def)
  have d: "SerializeJSONProperty (Some ?K) (JObj details) = Some ''{}''"
    by (rule nested_object_is_empty) (use assms(1) s in simp)
  have m: "SerializeJSONProperty (Some ?K) (JObj meta) = Some ''{}''"
    by (rule nested_object_is_empty) (use assms(2) s in simp)
  show ?thesis
    unfolding JSON_stringify_replacer_def Let_def certificate_payload_def
    by (simp only: list.map fst_conv top_keys_sorted top_keys_property_list map_prod_simp id_apply
        d m)
qed

text \<open>
  Claim C5. Two certificate payloads with the same \<open>certificateId\<close>, \<open>timestamp\<close>,
  \<open>version\<close> and \<open>issuer\<close> have the same data hash, whatever their \<open>wipeDetails\<close> and
  \<open>metadata\<close> objects hold, as long as no property of these two objects bears the name
  of a top-level field: the sorted top-level key list is the replacer, it filters the
  properties of the nested objects too, and both are serialised as \<^verbatim>\<open>{}\<close>. In particular
  the hash that \<^verbatim>\<open>generateCertificate\<close> computes is the same for every wipe record.
\<close>

theorem data_hash_ignores_nested_values:
  assumes "set (map fst details1) \<inter> set top_level_keys = {}"
      and "set (map fst meta1) \<inter> set top_level_keys = {}"
      and "set (map fst details2) \<inter> set top_level_keys = {}"
      and "set (map fst meta2) \<inter> set top_level_keys = {}"
  shows "generateDataHash w (certificate_payload cid ts ver iss details1 meta1)
           = generateDataHash w (certificate_payload cid ts ver iss details2 meta2)
         \<and> generateDataHash w (certificateData_literal w wipeData1)
           = generateDataHash w (certificateData_literal w wipeData2)"
proof -
  have a: "generateDataHash w (certificate_payload cid ts ver iss details1 meta1)
           = generateDataHash w (certificate_payload cid ts ver iss details2 meta2)"
    by (simp only: generateDataHash_def Let_def payload_dataString[OF assms(1,2)]
        payload_dataString[OF assms(3,4)])
  have lit: "\<exists>details meta.
      certificateData_literal w wd =
        certificate_payload (JStr (uuidv4 w)) (JStr (now_ISOString w)) (JStr ''1.0'')
          (js_or (env_value (process_env w ''CERT_ISSUER_NAME'')) (JStr ''Secure Data Solutions''))
          details meta
      \<and> set (map fst details) \<inter> set top_level_keys = {}
      \<and> set (map fst meta) \<inter> set top_level_keys = {}" for wd
    by (simp add: certificateData_literal_def certificate_payload_def top_level_keys_def)
  obtain d1 m1 where l1: "certificateData_literal w wipeData1 =
        certificate_payload (JStr (uuidv4 w)) (JStr (now_ISOString w)) (JStr ''1.0'')
          (js_or (env_value (process_env w ''CERT_ISSUER_NAME'')) (JStr ''Secure Data Solutions''))
          d1 m1"
    and k1: "set (map fst d1) \<inter> set top_level_keys = {}"
            "set (map fst m1) \<inter> set top_level_keys = {}"
    using lit[of wipeData1] by blast
  obtain d2 m2 where l2: "certificateData_literal w wipeData2 =
        certificate_payload (JStr (uuidv4 w)) (JStr (now_ISOString w)) (JStr ''1.0'')
          (js_or (env_value (process_env w ''CERT_ISSUER_NAME'')) (JStr ''Secure Data Solutions''))
          d2 m2"
    and k2: "set (map fst d2) \<inter> set top_level_keys = {}"
            "set (map fst m2) \<inter> set top_level_keys = {}"
    using lit[of wipeData2] by blast
  have b: "generateDataHash w (certificateData_literal w wipeData1)
           = generateDataHash w (certificateData_literal w wipeData2)"
    by (simp only: l1 l2 generateDataHash_def Let_def payload_dataString[OF k1]
        payload_dataString[OF k2])
  from a b show ?thesis by simp
qed

theorem data_hash_ignores_nested_values_witness:
  "set (map fst [(''passes'', JNum 3), (''status'', JStr ''success'')]) \<inter> set top_level_keys = {}
   \<and> set (map fst [(''ipAddress'', JStr ''203.0.113.7'')]) \<inter> set top_level_keys = {}
   \<and> set (map fst [(''passes'', JNum 35), (''status'', JStr ''failed'')]) \<inter> set top_level_keys = {}
   \<and> set (map fst [(''ipAddress'', JStr ''198.51.100.1'')]) \<inter> set top_level_keys = {}
   \<and> generateDataHash demo_world
         (certificate_payload (JStr demo_id) (JStr ''2024-01-01T00:02:00.000Z'') (JStr ''1.0'')
            (JStr ''Secure Data Solutions'')
            [(''passes'', JNum 3), (''status'', JStr ''success'')]
            [(''ipAddress'', JStr ''203.0.113.7'')])
       = generateDataHash demo_world
         (certificate_payload (JStr demo_id) (JStr ''2024-01-01T00:02:00.000Z'') (JStr ''1.0'')
            (JStr ''Secure Data Solutions'')
            [(''passes'', JNum 35), (''status'', JStr ''failed'')]
            [(''ipAddress'', JStr ''198.51.100.1'')])"
proof -
  have h1: "set (map fst [(''passes'', JNum 3), (''status'', JStr ''success'')])
              \<inter> set top_level_keys = {}"
    by (simp add: top_level_keys_def)
  have h2: "set (map fst [(''ipAddress'', JStr ''203.0.113.7'')]) \<inter> set top_level_keys = {}"
    by (simp add: top_level_keys_def)
  have h3: "set (map fst [(''passes'', JNum 35), (''status'', JStr ''failed'')])
              \<inter> set top_level_keys = {}"
    by (simp add: top_level_keys_def)
  have h4: "set (map fst [(''ipAddress'', JStr ''198.51.100.1'')]) \<inter> set top_level_keys = {}"
    by (simp add: top_level_keys_def)
  from data_hash_ignores_nested_values[OF h1 h2 h3 h4, THEN conjunct1] h1 h2 h3 h4
  show ?thesis by blast
qed

section \<open>Property order\<close>

inductive_cases same_content_JObjE: "same_content (JObj a) (JObj b)"

lemma map_of_serialised:
  "map_of (map (map_prod id f) ps) k = map_option f (map_of ps k)"
  by (induction ps) auto

lemma SerializeJSONObject_cong:
  assumes "\<And>k. k \<in> set ks \<Longrightarrow> map_of sps k = map_of sqs k"
  shows "SerializeJSONObject (Some ks) sps = SerializeJSONObject (Some ks) sqs"
proof -
  have "map (\<lambda>k. case map_of sps k of Some (Some s) \<Rightarrow> [quote k @ '':'' @ s] | _ \<Rightarrow> []) ks
      = map (\<lambda>k. case map_of sqs k of Some (Some s) \<Rightarrow> [quote k @ '':'' @ s] | _ \<Rightarrow> []) ks"
    using assms by (intro map_cong) simp_all
  then show ?thesis by (simp only: SerializeJSONObject_def Let_def option.case)
qed

lemma list_all2_same_map:
  "list_all2 (\<lambda>x y. P x y \<and> f x = f y) vs ws \<Longrightarrow> map f vs = map f ws"
  by (induction vs ws rule: list_all2_induct) simp_all

lemma same_content_serialised:
  "same_content u v \<Longrightarrow>
     SerializeJSONProperty (Some ks) u = SerializeJSONProperty (Some ks) v"
proof (induction rule: same_content.induct)
  case (same_arr vs ws)
  then have "map (SerializeJSONProperty (Some ks)) vs = map (SerializeJSONProperty (Some ks)) ws"
    by (rule list_all2_same_map)
  then show ?case by (simp only: SerializeJSONProperty.simps)
next
  case (same_obj ps qs)
  note dq = same_obj.hyps(2) and keys = same_obj.hyps(3)
  have "map_of (map (map_prod id (SerializeJSONProperty (Some ks))) ps) k
      = map_of (map (map_prod id (SerializeJSONProperty (Some ks))) qs) k" for k
  proof (cases "map_of ps k")
    case None
    then have "k \<notin> set (map fst ps)" by (simp add: map_of_eq_None_iff)
    with keys have "k \<notin> set (map fst qs)" by blast
    then have "map_of qs k = None" by (simp add: map_of_eq_None_iff)
    with None show ?thesis by (simp only: map_of_serialised option.map)
  next
    case (Some v)
    then have pv: "(k, v) \<in> set ps" by (rule map_of_SomeD)
    then have "k \<in> set (map fst ps)" by (metis fst_conv image_eqI set_map)
    with keys have "k \<in> set (map fst qs)" by blast
    then obtain v' where qv: "(k, v') \<in> set qs" by (metis fst_conv imageE prod.collapse set_map)
    from dq qv have q: "map_of qs k = Some v'" by (rule map_of_is_SomeI)
    from same_obj.IH[OF pv qv]
    have "SerializeJSONProperty (Some ks) v = SerializeJSONProperty (Some ks) v'" .
    with Some q show ?thesis by (simp only: map_of_serialised option.map)
  qed
  then have "SerializeJSONObject (Some ks) (map (map_prod id (SerializeJSONProperty (Some ks))) ps)
      = SerializeJSONObject (Some ks) (map (map_prod id (SerializeJSONProperty (Some ks))) qs)"
    by (intro SerializeJSONObject_cong)
  then show ?case by (simp only: SerializeJSONProperty.simps)
qed (rule refl)+

text \<open>
  Claim C6 (as the code has it). The text that \<^verbatim>\<open>generateDataHash\<close> hashes does not depend
  on the order of the properties: two payloads with the same content, objects compared
  as sets of properties at every nesting level, give the same text and the same hash.
  (The text that is signed is \<^verbatim>\<open>JSON.stringify(certificateData)\<close>, which lists the
  properties in the order of the object.)
\<close>

theorem hashed_text_is_order_independent:
  assumes "same_content (JObj a) (JObj b)"
  shows "JSON_stringify_replacer a (sort (map fst a)) = JSON_stringify_replacer b (sort (map fst b))
         \<and> generateDataHash w a = generateDataHash w b"
proof -
  from assms have da: "distinct (map fst a)" by (rule same_content_JObjE)
  from assms have db: "distinct (map fst b)" by (rule same_content_JObjE)
  from assms have keys: "set (map fst a) = set (map fst b)"
    by (rule same_content_JObjE) (simp only: set_map)
  have "set (sort (map fst a)) = set (sort (map fst b))"
    using keys by (simp only: set_sort)
  moreover have "distinct (sort (map fst a))" "distinct (sort (map fst b))"
    using da db by (simp_all only: distinct_sort)
  ultimately have srt: "sort (map fst a) = sort (map fst b)"
    by (intro sorted_distinct_set_unique sorted_sort)
  have "SerializeJSONProperty (Some ks) (JObj a) = SerializeJSONProperty (Some ks) (JObj b)"
    for ks
    by (rule same_content_serialised[OF assms])
  then have obj: "SerializeJSONObject (Some ks)
                    (map (map_prod id (SerializeJSONProperty (Some ks))) a)
                = SerializeJSONObject (Some ks)
                    (map (map_prod id (SerializeJSONProperty (Some ks))) b)" for ks
    by (simp only: SerializeJSONProperty.simps option.inject)
  have same_text: "JSON_stringify_replacer a (sort (map fst a))
      = JSON_stringify_replacer b (sort (map fst b))"
    unfolding JSON_stringify_replacer_def Let_def srt by (rule obj)
  then have "generateDataHash w a = generateDataHash w b"
    by (simp only: generateDataHash_def Let_def)
  with same_text show ?thesis by (rule conjI)
qed

lemma two_field_payloads_same_content:
  "same_content (JObj [(''certificateId'', JStr ''c-1''), (''issuer'', JStr ''ACME'')])
                (JObj [(''issuer'', JStr ''ACME''), (''certificateId'', JStr ''c-1'')])"
  by (rule same_obj) (auto intro: same_content.intros)

theorem hashed_text_is_order_independent_witness:
  "same_content (JObj [(''certificateId'', JStr ''c-1''), (''issuer'', JStr ''ACME'')])
                (JObj [(''issuer'', JStr ''ACME''), (''certificateId'', JStr ''c-1'')])
   \<and> generateDataHash demo_world [(''certificateId'', JStr ''c-1''), (''issuer'', JStr ''ACME'')]
       = generateDataHash demo_world [(''issuer'', JStr ''ACME''), (''certificateId'', JStr ''c-1'')]"
  using hashed_text_is_order_independent[OF two_field_payloads_same_content, of demo_world]
    two_field_payloads_same_content
  by blast

text \<open>
  The claim as the specification states it fails for the signed text: the same two
  properties in a different order are signed as different texts.
\<close>

theorem signed_text_order_counterexample:
  \<open>same_content (JObj [(''certificateId'', JStr ''c-1''), (''issuer'', JStr ''ACME'')])
                (JObj [(''issuer'', JStr ''ACME''), (''certificateId'', JStr ''c-1'')])
   \<and> JSON_stringify [(''certificateId'', JStr ''c-1''), (''issuer'', JStr ''ACME'')]
       = ''{"certificateId":"c-1","issuer":"ACME"}''
   \<and> JSON_stringify [(''issuer'', JStr ''ACME''), (''certificateId'', JStr ''c-1'')]
       = ''{"issuer":"ACME","certificateId":"c-1"}''
   \<and> JSON_stringify [(''certificateId'', JStr ''c-1''), (''issuer'', JStr ''ACME'')]
       \<noteq> JSON_stringify [(''issuer'', JStr ''ACME''), (''certificateId'', JStr ''c-1'')]\<close>
proof -
  have a: \<open>JSON_stringify [(''certificateId'', JStr ''c-1''), (''issuer'', JStr ''ACME'')]
       = ''{"certificateId":"c-1","issuer":"ACME"}''\<close>
    by code_simp
  have b: \<open>JSON_stringify [(''issuer'', JStr ''ACME''), (''certificateId'', JStr ''c-1'')]
       = ''{"issuer":"ACME","certificateId":"c-1"}''\<close>
    by code_simp
  have c: \<open>''{"certificateId":"c-1","issuer":"ACME"}'' \<noteq> ''{"issuer":"ACME","certificateId":"c-1"}''\<close>
    by simp
  from a b c two_field_payloads_same_content show ?thesis by simp
qed

section \<open>The two texts that are hashed\<close>

lemma issuer_value:
  "js_or (env_value (process_env w ''CERT_ISSUER_NAME'')) (JStr ''Secure Data Solutions'')
     = JStr (issuer_name w)"
  by (cases "process_env w ''CERT_ISSUER_NAME''") (simp_all add: js_or_def env_value_def issuer_name_def)

lemma literal_shape:
  "\<exists>details meta.
      certificateData_literal w wd =
        certificate_payload (JStr (uuidv4 w)) (JStr (now_ISOString w)) (JStr ''1.0'')
          (JStr (issuer_name w)) details meta
      \<and> set (map fst details) \<inter> set (''dataHash'' # top_level_keys) = {}
      \<and> set (map fst meta) \<inter> set (''dataHash'' # top_level_keys) = {}"
  by (simp add: certificateData_literal_def certificate_payload_def top_level_keys_def
      issuer_value)

lemma issuance_hash:
  "generateDataHash w (certificateData_literal w wd) = sha256_hex w (hashed_at_issuance w)"
proof -
  obtain d m where l: "certificateData_literal w wd =
        certificate_payload (JStr (uuidv4 w)) (JStr (now_ISOString w)) (JStr ''1.0'')
          (JStr (issuer_name w)) d m"
    and k: "set (map fst d) \<inter> set top_level_keys = {}"
           "set (map fst m) \<inter> set top_level_keys = {}"
    using literal_shape[of w wd] by auto
  show ?thesis
    by (simp add: generateDataHash_def l payload_dataString[OF k] SerializeJSONObject_def
        hashed_at_issuance_def)
qed

lemma verification_keys_sorted:
  "sort [''certificateId'', ''timestamp'', ''version'', ''issuer'', ''wipeDetails'', ''metadata'',
         ''dataHash'']
     = [''certificateId'', ''dataHash'', ''issuer'', ''metadata'', ''timestamp'', ''version'',
        ''wipeDetails'']"
  by code_simp

lemma verification_keys_property_list:
  "property_list [''certificateId'', ''dataHash'', ''issuer'', ''metadata'', ''timestamp'',
                  ''version'', ''wipeDetails'']
     = [''certificateId'', ''dataHash'', ''issuer'', ''metadata'', ''timestamp'', ''version'',
        ''wipeDetails'']"
  by (simp add: property_list_def)

lemma keys_roundtrip_subset:
  "set (map fst (json_roundtrip_object ps)) \<subseteq> set (map fst ps)"
  by (force simp: json_roundtrip_object_def)

lemma stored_without_signature:
  assumes "certificateData_literal w wd =
        certificate_payload (JStr (uuidv4 w)) (JStr (now_ISOString w)) (JStr ''1.0'')
          (JStr (issuer_name w)) d m"
  shows "delete_prop (json_roundtrip_object (signed_certificate w wd sig)) ''signature''
       = certificate_payload (JStr (uuidv4 w)) (JStr (now_ISOString w)) (JStr ''1.0'')
           (JStr (issuer_name w)) (json_roundtrip_object d) (json_roundtrip_object m)
         @ [(''dataHash'', JStr (sha256_hex w (hashed_at_issuance w)))]"
proof -
  have h: "generateDataHash w (certificateData_literal w wd)
             = sha256_hex w (hashed_at_issuance w)"
    by (rule issuance_hash)
  have "signed_certificate w wd sig =
          certificate_payload (JStr (uuidv4 w)) (JStr (now_ISOString w)) (JStr ''1.0'')
            (JStr (issuer_name w)) d m
          @ [(''dataHash'', JStr (sha256_hex w (hashed_at_issuance w))),
             (''signature'', JStr sig)]"
    unfolding signed_certificate_def certificate_with_hash_def h
    unfolding assms
    by (simp add: certificate_payload_def set_prop_def)
  then show ?thesis
    by (simp add: certificate_payload_def json_roundtrip_object_def delete_prop_def)
qed

lemma verification_hash:
  "generateDataHash w (delete_prop (json_roundtrip_object (signed_certificate w wd sig))
                         ''signature'')
     = sha256_hex w (hashed_at_verification w)"
proof -
  let ?K = "[''certificateId'', ''dataHash'', ''issuer'', ''metadata'', ''timestamp'',
             ''version'', ''wipeDetails'']"
  obtain d m where l: "certificateData_literal w wd =
        certificate_payload (JStr (uuidv4 w)) (JStr (now_ISOString w)) (JStr ''1.0'')
          (JStr (issuer_name w)) d m"
    and kd: "set (map fst d) \<inter> set (''dataHash'' # top_level_keys) = {}"
    and km: "set (map fst m) \<inter> set (''dataHash'' # top_level_keys) = {}"
    using literal_shape[of w wd] by auto
  have s: "set ?K = set (''dataHash'' # top_level_keys)"
    by (auto simp: top_level_keys_def)
  have "set (map fst (json_roundtrip_object d)) \<inter> set ?K = {}"
    using keys_roundtrip_subset[of d] kd unfolding s by blast
  then have nd: "SerializeJSONProperty (Some ?K) (JObj (json_roundtrip_object d)) = Some ''{}''"
    by (rule nested_object_is_empty)
  have "set (map fst (json_roundtrip_object m)) \<inter> set ?K = {}"
    using keys_roundtrip_subset[of m] km unfolding s by blast
  then have nm: "SerializeJSONProperty (Some ?K) (JObj (json_roundtrip_object m)) = Some ''{}''"
    by (rule nested_object_is_empty)
  have "JSON_stringify_replacer
          (certificate_payload (JStr (uuidv4 w)) (JStr (now_ISOString w)) (JStr ''1.0'')
             (JStr (issuer_name w)) (json_roundtrip_object d) (json_roundtrip_object m)
           @ [(''dataHash'', JStr (sha256_hex w (hashed_at_issuance w)))])
          (sort (map fst
             (certificate_payload (JStr (uuidv4 w)) (JStr (now_ISOString w)) (JStr ''1.0'')
                (JStr (issuer_name w)) (json_roundtrip_object d) (json_roundtrip_object m)
              @ [(''dataHash'', JStr (sha256_hex w (hashed_at_issuance w)))])))
        = hashed_at_verification w"
    unfolding JSON_stringify_replacer_def Let_def certificate_payload_def
    apply (simp only: list.map fst_conv map_append append.simps verification_keys_sorted
        verification_keys_property_list map_prod_simp id_apply nd nm)
    apply (simp add: SerializeJSONObject_def hashed_at_verification_def)
    done
  then show ?thesis
    by (simp only: generateDataHash_def Let_def stored_without_signature[OF l])
qed

lemma quoted_key_names:
  "quote ''dataHash'' = CHR 0x22 # ''dataHash'' @ [CHR 0x22]"
  "quote ''issuer'' = CHR 0x22 # ''issuer'' @ [CHR 0x22]"
  by code_simp+

lemma hashed_texts_differ: "hashed_at_verification w \<noteq> hashed_at_issuance w"
  by (simp add: hashed_at_verification_def hashed_at_issuance_def quoted_key_names)

text \<open>
  For every world and every wipe record: once an issuance has returned, the verification
  of the certificate it stored hashes a text that differs from the text hashed at
  issuance, so the verdict is \<^verbatim>\<open>valid\<close> only if SHA-256 gives both texts the same digest.
\<close>

lemma issue_then_verify:
  assumes "generateCertificate w kms fs wipeData = (Inr r, fs', logs)"
  shows "fst (verifyCertificate w kms fs' (certificateId r)) =
     (if provider_answer w kms
           (JSON_stringify (delete_prop (stored_certificate fs' (certificateId r)) ''signature''))
           (JStr (signature r)) \<noteq> Inr True
      then Invalid ''Invalid signature''
      else if sha256_hex w (hashed_at_verification w) \<noteq> sha256_hex w (hashed_at_issuance w)
      then Invalid ''Data integrity check failed''
      else Valid (stored_certificate fs' (certificateId r)) (now_ISOString w))"
proof -
  let ?c = "stored_certificate fs' (certificateId r)"
  note ok = generateCertificate_success[OF assms]
  have c: "?c = json_roundtrip_object (signed_certificate w wipeData (signature r))"
    by (rule stored_after_issue[OF assms])
  from ok have on_disk: "fs' (certificateId r @ ''.json'') = Some (JsonObject ?c)"
    by (auto simp: stored_certificate_def)
  have rd: "get_prop ?c k
              = json_roundtrip (get_prop (signed_certificate w wipeData (signature r)) k)" for k
    by (simp only: c get_prop_roundtrip[OF signed_keys_distinct])
  have sg: "get_prop ?c ''signature'' = JStr (signature r)"
    by (simp add: rd signed_certificate_def get_prop_set_prop)
  have dh: "get_prop ?c ''dataHash'' = JStr (sha256_hex w (hashed_at_issuance w))"
    by (simp add: rd signed_certificate_def certificate_with_hash_def get_prop_set_prop
        issuance_hash)
  have vh: "generateDataHash w (delete_prop ?c ''signature'')
              = sha256_hex w (hashed_at_verification w)"
    unfolding c by (rule verification_hash)
  show ?thesis
    using verifyCertificate_stored[where fs=fs' and cid="certificateId r" and c="?c"
        and w=w and kms=kms, OF on_disk]
    by (simp add: sg dh vh)
qed

section \<open>Issuing and then verifying\<close>

text \<open>
  Claim C1 fails on the code. The scenario's record is issued (the issuance succeeds, and
  the data hash is the SHA-256 of the text that \<^verbatim>\<open>generateDataHash\<close> builds); verifying the
  stored certificate by its identifier then answers
  \<^verbatim>\<open>{valid: false, error: 'Data integrity check failed'}\<close>: the object that verification
  hashes still holds the \<open>dataHash\<close> property, which the object hashed at issuance did
  not have. Lemmas \<open>issue_then_verify\<close> and \<open>hashed_texts_differ\<close> show the same for every
  world and every record: the two hashed texts always differ.
\<close>

theorem issued_certificate_fails_verification:
  "\<not> isl (fst (generateCertificate demo_world demo_kms Map.empty demo_wipeData))
   \<and> certificateId (projr (fst (generateCertificate demo_world demo_kms Map.empty demo_wipeData)))
       = demo_id
   \<and> dataHash (projr (fst (generateCertificate demo_world demo_kms Map.empty demo_wipeData)))
       = ''a8b451eb53b5ab45df664e27f1dc671e8bb792340074c1a71cfde1faeee9e404''
   \<and> generateDataHash demo_world (delete_prop (stored_certificate demo_store demo_id) ''signature'')
       = ''4a7b22f08ba781be3394a67cc5bad78e3385521879342fd3a550ac9ef1d9a0c7''
   \<and> fst (verifyCertificate demo_world demo_kms demo_store demo_id)
       = Invalid ''Data integrity check failed''"
  by code_simp

end
